theory Spec2Isabelle
  imports Main
begin

section \<open>Go values the loader handles\<close>

text \<open>
  \<^verbatim>\<open>[]byte\<close> is a list of 8-bit characters, \<^verbatim>\<open>map[string]string\<close> a partial map
  (a nil map and an empty map both read as \<open>Map.empty\<close>), a nil-able pointer an
  \<open>option\<close>.  A Go function returning \<^verbatim>\<open>(T, error)\<close> returns a pair whose second
  component is \<open>None\<close> for a nil error.
\<close>

type_synonym bytes = string
type_synonym strmap = "string \<rightharpoonup> string"

text \<open>
  Go's \<^verbatim>\<open>error\<close> values.  The loader builds its own with \<^verbatim>\<open>fmt.Errorf\<close>; the
  constructors are named after the failures they report, and \<^verbatim>\<open>%w\<close> keeps the
  wrapped error as an argument.  \<open>External\<close> is an error made outside the loader
  (by the YAML decoder or by a plugin), known by its message only.
\<close>

datatype error =
    External string
  | EmptySpec                          \<comment> \<open>\<^verbatim>\<open>spec is required\<close>\<close>
  | MalformedSpec error                \<comment> \<open>\<^verbatim>\<open>could not unmarshall YAML spec correctly: %w\<close>\<close>
  | UnsupportedVersion string          \<comment> \<open>\<^verbatim>\<open>invalid spec version, should be %q\<close>\<close>
  | NoSLOs                             \<comment> \<open>\<^verbatim>\<open>at least one SLO is required\<close>\<close>
  | UnknownPlugin string               \<comment> \<open>\<^verbatim>\<open>unknown plugin: %q\<close>\<close>
  | PluginExecutionError string error  \<comment> \<open>\<^verbatim>\<open>plugin %q execution error: %w\<close>\<close>
  | CouldNotMapToModel error           \<comment> \<open>\<^verbatim>\<open>could not map to model: %w\<close>\<close>

subsection \<open>float64 and the verb \<^verbatim>\<open>%f\<close>\<close>

text \<open>
  The objective is a \<^verbatim>\<open>float64\<close>.  The loader copies it and prints it with
  \<^verbatim>\<open>fmt.Sprintf("%f", _)\<close>, nothing else, so a value is kept as what it denotes:
  \<open>Finite neg m k\<close> is \<open>(-1)^neg * m / 2^k\<close> (every finite double has this shape,
  negative zero included), \<open>Inf neg\<close> an infinity, \<open>NaN\<close> not-a-number.
  \<^verbatim>\<open>%f\<close> prints a finite value with precision 6, the exact value rounded to the
  nearest multiple of \<open>10^-6\<close>, ties to the even digit, and prints the other
  values as \<^verbatim>\<open>+Inf\<close>, \<^verbatim>\<open>-Inf\<close>, \<^verbatim>\<open>NaN\<close>.
\<close>

datatype float64 = Finite bool nat nat | Inf bool | NaN

definition digit :: "nat \<Rightarrow> char" where
  "digit n = ''0123456789'' ! (n mod 10)"

fun itoa :: "nat \<Rightarrow> string" where
  "itoa n = (if n < 10 then [digit n] else itoa (n div 10) @ [digit n])"

declare itoa.simps [simp del]

definition frac6 :: "nat \<Rightarrow> string" where
  "frac6 n = [digit (n div 100000), digit (n div 10000), digit (n div 1000),
              digit (n div 100), digit (n div 10), digit n]"

definition round_half_even :: "nat \<Rightarrow> nat \<Rightarrow> nat" where
  "round_half_even n d =
     (let q = n div d; r = n mod d
      in if d < 2 * r \<or> (2 * r = d \<and> odd q) then q + 1 else q)"

fun sprintf_f :: "float64 \<Rightarrow> string" where
  "sprintf_f NaN = ''NaN''"
| "sprintf_f (Inf neg) = (if neg then ''-Inf'' else ''+Inf'')"
| "sprintf_f (Finite neg m k) =
     (let scaled = round_half_even (m * 10 ^ 6) (2 ^ k)
      in (if neg then ''-'' else '''') @ itoa (scaled div 10 ^ 6) @ ''.'' @ frac6 (scaled mod 10 ^ 6))"

text \<open>
  Reading a string of decimal digits as a number, to say which number printed digits
  denote.
\<close>

definition digit_value :: "char \<Rightarrow> nat" where
  "digit_value c = of_char c - 48"

definition atoi :: "string \<Rightarrow> nat" where
  "atoi s = foldl (\<lambda>acc c. 10 * acc + digit_value c) 0 s"

section \<open>The versioned spec (package \<^verbatim>\<open>prometheusv1\<close>)\<close>

text \<open>
  Modelled from the spec: the declarations of \<^verbatim>\<open>pkg/prometheus/api/v1\<close> (the input
  schema of section 6: \<^verbatim>\<open>Spec\<close>, \<^verbatim>\<open>SLO\<close>, \<^verbatim>\<open>SLI\<close>, \<^verbatim>\<open>Alerting\<close>, \<^verbatim>\<open>Alert\<close> and the
  constant \<^verbatim>\<open>Version\<close>), with the fields \<^verbatim>\<open>mapSpecToModel\<close> reads.  Fields carry the
  prefix \<open>v1_\<close> to keep them apart from the model's.
\<close>

record v1_SLIEvents =
  v1_ErrorQuery :: string
  v1_TotalQuery :: string

record v1_SLIRaw =
  v1_ErrorRatioQuery :: string

record v1_SLIPlugin =
  v1_ID :: string
  v1_Options :: strmap

record v1_SLI =
  v1_Events :: "v1_SLIEvents option"
  v1_Raw :: "v1_SLIRaw option"
  v1_Plugin :: "v1_SLIPlugin option"

record v1_Alert =
  v1_Disable :: bool
  v1_AlertLabels :: strmap
  v1_AlertAnnotations :: strmap

record v1_Alerting =
  v1_AlertingName :: string
  v1_AlertingLabels :: strmap
  v1_AlertingAnnotations :: strmap
  v1_PageAlert :: v1_Alert
  v1_TicketAlert :: v1_Alert

record v1_SLO =
  v1_Name :: string
  v1_Description :: string
  v1_Objective :: float64
  v1_SLOLabels :: strmap
  v1_SLI :: v1_SLI
  v1_Alerting :: v1_Alerting

record Spec =
  v1_Version :: string
  v1_Service :: string
  v1_Labels :: strmap
  v1_SLOs :: "v1_SLO list"

definition prometheusv1_Version :: string where
  "prometheusv1_Version = ''prometheus/v1''"

text \<open>
  The decoder fills a zero-valued \<^verbatim>\<open>Spec{}\<close>: a key absent from the YAML leaves its
  field at Go's zero value.  \<^verbatim>\<open>mapSpecToModel\<close> compares \<^verbatim>\<open>SLI.Events\<close>, \<^verbatim>\<open>SLI.Raw\<close> and
  \<^verbatim>\<open>SLI.Plugin\<close> with nil, so they are pointers; it reads \<^verbatim>\<open>Alerting.PageAlert.Disable\<close>
  and \<^verbatim>\<open>Alerting.TicketAlert.Disable\<close> unguarded, so the alerting block and its two
  alerts are struct values, present (as zero values) also when the YAML has no such
  block.  These are the zero values of the alerting block and of the signal source.
\<close>

definition zero_Alert :: v1_Alert where
  "zero_Alert = \<lparr>v1_Disable = False, v1_AlertLabels = Map.empty, v1_AlertAnnotations = Map.empty\<rparr>"

definition zero_Alerting :: v1_Alerting where
  "zero_Alerting = \<lparr>v1_AlertingName = '''', v1_AlertingLabels = Map.empty,
     v1_AlertingAnnotations = Map.empty, v1_PageAlert = zero_Alert, v1_TicketAlert = zero_Alert\<rparr>"

definition zero_SLI :: v1_SLI where
  "zero_SLI = \<lparr>v1_Events = None, v1_Raw = None, v1_Plugin = None\<rparr>"

section \<open>The model (package \<^verbatim>\<open>prometheus\<close>)\<close>

text \<open>
  Modelled from the spec: the declarations of \<^verbatim>\<open>internal/prometheus\<close> that are not in
  \<^verbatim>\<open>spec.go\<close> (\<^verbatim>\<open>SLOGroup\<close>, \<^verbatim>\<open>SLO\<close>, \<^verbatim>\<open>SLI\<close>, \<^verbatim>\<open>SLIEvents\<close>, \<^verbatim>\<open>SLIRaw\<close>, \<^verbatim>\<open>AlertMeta\<close>,
  \<^verbatim>\<open>SLIPlugin\<close>), with the fields \<^verbatim>\<open>spec.go\<close> and its test name.  A plugin's \<^verbatim>\<open>Func\<close>
  takes the metadata, the labels and the options; its context argument, which the
  loader only passes on, is left out.  To keep field names apart, \<^verbatim>\<open>AlertMeta\<close>'s
  \<^verbatim>\<open>Name\<close>, \<^verbatim>\<open>Labels\<close> and \<^verbatim>\<open>Annotations\<close> are \<open>AlertName\<close>, \<open>AlertLabels\<close> and
  \<open>AlertAnnotations\<close>, and \<^verbatim>\<open>SLIPlugin\<close>'s \<^verbatim>\<open>ID\<close> is \<open>PluginID\<close>.
\<close>

record SLIEvents =
  ErrorQuery :: string
  TotalQuery :: string

record SLIRaw =
  ErrorRatioQuery :: string

record SLI =
  Events :: "SLIEvents option"
  Raw :: "SLIRaw option"

record AlertMeta =
  Disable :: bool
  AlertName :: string
  AlertLabels :: strmap
  AlertAnnotations :: strmap

record SLO =
  ID :: string
  Name :: string
  Description :: string
  Service :: string
  TimeWindow :: int
  Objective :: float64
  Labels :: strmap
  SLI :: SLI
  PageAlertMeta :: AlertMeta
  TicketAlertMeta :: AlertMeta

record SLOGroup =
  SLOs :: "SLO list"

record SLIPlugin =
  PluginID :: string
  Func :: "strmap \<Rightarrow> strmap \<Rightarrow> strmap \<Rightarrow> string \<times> error option"

text \<open>\<^verbatim>\<open>time.Hour\<close>, a \<^verbatim>\<open>time.Duration\<close>, in nanoseconds.\<close>

definition time_Hour :: int where
  "time_Hour = 3600000000000"

text \<open>
  Modelled from the spec: the keys of the plugin metadata, constants of
  \<^verbatim>\<open>pkg/prometheus/plugin/v1\<close> ("keys equivalent to service, slo, objective"; the
  test's plugin reads them under these names).
\<close>

definition SLIPluginMetaService :: string where
  "SLIPluginMetaService = ''service''"

definition SLIPluginMetaSLO :: string where
  "SLIPluginMetaSLO = ''slo''"

definition SLIPluginMetaObjective :: string where
  "SLIPluginMetaObjective = ''objective''"

text \<open>
  Modelled from the spec: \<^verbatim>\<open>mergeLabels\<close>, a helper of the package outside
  \<^verbatim>\<open>spec.go\<close>: the first map overridden by the second on key collision, keys unique to
  either side preserved.
\<close>

definition mergeLabels :: "strmap \<Rightarrow> strmap \<Rightarrow> strmap" where
  "mergeLabels a b = a ++ b"

section \<open>The loader (\<^verbatim>\<open>spec.go\<close>)\<close>

record YAMLSpecLoader =
  plugins :: "string \<rightharpoonup> SLIPlugin"

definition NewYAMLSpecLoader :: "(string \<rightharpoonup> SLIPlugin) \<Rightarrow> YAMLSpecLoader" where
  "NewYAMLSpecLoader ps = \<lparr>plugins = ps\<rparr>"

text \<open>The struct literal that opens the loop body (lines 58 to 68).\<close>

definition newSLO :: "Spec \<Rightarrow> v1_SLO \<Rightarrow> SLO" where
  "newSLO spec specSLO =
     \<lparr>ID = v1_Service spec @ ''-'' @ v1_Name specSLO,
      Name = v1_Name specSLO,
      Description = v1_Description specSLO,
      Service = v1_Service spec,
      TimeWindow = 30 * 24 * time_Hour,
      Objective = v1_Objective specSLO,
      Labels = mergeLabels (v1_Labels spec) (v1_SLOLabels specSLO),
      SLI = \<lparr>Events = None, Raw = None\<rparr>,
      PageAlertMeta = \<lparr>Disable = True, AlertName = '''', AlertLabels = Map.empty,
                       AlertAnnotations = Map.empty\<rparr>,
      TicketAlertMeta = \<lparr>Disable = True, AlertName = '''', AlertLabels = Map.empty,
                         AlertAnnotations = Map.empty\<rparr>\<rparr>"

text \<open>The metadata handed to a plugin (lines 90 to 94).\<close>

definition pluginMeta :: "Spec \<Rightarrow> v1_SLO \<Rightarrow> strmap" where
  "pluginMeta spec specSLO =
     [SLIPluginMetaService \<mapsto> v1_Service spec,
      SLIPluginMetaSLO \<mapsto> v1_Name specSLO,
      SLIPluginMetaObjective \<mapsto> sprintf_f (v1_Objective specSLO)]"

text \<open>
  "Set SLIs" (lines 70 to 104): three \<^verbatim>\<open>if\<close> statements in sequence.  \<open>Inl err\<close> is
  the \<^verbatim>\<open>return nil, err\<close> that leaves \<^verbatim>\<open>mapSpecToModel\<close> from inside the loop.
\<close>

definition setEvents :: "v1_SLO \<Rightarrow> SLO \<Rightarrow> SLO" where
  "setEvents specSLO slo =
     (case v1_Events (v1_SLI specSLO) of
        None \<Rightarrow> slo
      | Some ev \<Rightarrow> slo\<lparr>SLI := (SLI slo)\<lparr>Events :=
          Some \<lparr>ErrorQuery = v1_ErrorQuery ev, TotalQuery = v1_TotalQuery ev\<rparr>\<rparr>\<rparr>)"

definition setRaw :: "v1_SLO \<Rightarrow> SLO \<Rightarrow> SLO" where
  "setRaw specSLO slo =
     (case v1_Raw (v1_SLI specSLO) of
        None \<Rightarrow> slo
      | Some raw \<Rightarrow> slo\<lparr>SLI := (SLI slo)\<lparr>Raw :=
          Some \<lparr>ErrorRatioQuery = v1_ErrorRatioQuery raw\<rparr>\<rparr>\<rparr>)"

definition setPlugin :: "YAMLSpecLoader \<Rightarrow> Spec \<Rightarrow> v1_SLO \<Rightarrow> SLO \<Rightarrow> error + SLO" where
  "setPlugin y spec specSLO slo =
     (case v1_Plugin (v1_SLI specSLO) of
        None \<Rightarrow> Inr slo
      | Some pl \<Rightarrow>
          (case plugins y (v1_ID pl) of
             None \<Rightarrow> Inl (UnknownPlugin (v1_ID pl))
           | Some plugin \<Rightarrow>
               (case Func plugin (pluginMeta spec specSLO) (v1_Labels spec) (v1_Options pl) of
                  (rawQuery, Some err) \<Rightarrow> Inl (PluginExecutionError (v1_ID pl) err)
                | (rawQuery, None) \<Rightarrow>
                    Inr (slo\<lparr>SLI := (SLI slo)\<lparr>Raw :=
                      Some \<lparr>ErrorRatioQuery = rawQuery\<rparr>\<rparr>\<rparr>))))"

definition setSLIs :: "YAMLSpecLoader \<Rightarrow> Spec \<Rightarrow> v1_SLO \<Rightarrow> SLO \<Rightarrow> error + SLO" where
  "setSLIs y spec specSLO slo = setPlugin y spec specSLO (setRaw specSLO (setEvents specSLO slo))"

text \<open>"Set alerts" (lines 106 to 121).\<close>

definition setAlerts :: "v1_SLO \<Rightarrow> SLO \<Rightarrow> SLO" where
  "setAlerts specSLO slo =
     (let a = v1_Alerting specSLO;
          slo1 = (if \<not> v1_Disable (v1_PageAlert a)
                  then slo\<lparr>PageAlertMeta :=
                    \<lparr>Disable = False,
                     AlertName = v1_AlertingName a,
                     AlertLabels = mergeLabels (v1_AlertingLabels a) (v1_AlertLabels (v1_PageAlert a)),
                     AlertAnnotations = mergeLabels (v1_AlertingAnnotations a)
                                          (v1_AlertAnnotations (v1_PageAlert a))\<rparr>\<rparr>
                  else slo)
      in if \<not> v1_Disable (v1_TicketAlert a)
         then slo1\<lparr>TicketAlertMeta :=
           \<lparr>Disable = False,
            AlertName = v1_AlertingName a,
            AlertLabels = mergeLabels (v1_AlertingLabels a) (v1_AlertLabels (v1_TicketAlert a)),
            AlertAnnotations = mergeLabels (v1_AlertingAnnotations a)
                                 (v1_AlertAnnotations (v1_TicketAlert a))\<rparr>\<rparr>
         else slo1)"

text \<open>One pass of the loop body: the SLO appended to \<^verbatim>\<open>models\<close>, or the error returned.\<close>

definition mapSpecToModel_body :: "YAMLSpecLoader \<Rightarrow> Spec \<Rightarrow> v1_SLO \<Rightarrow> error + SLO" where
  "mapSpecToModel_body y spec specSLO =
     (case setSLIs y spec specSLO (newSLO spec specSLO) of
        Inl err \<Rightarrow> Inl err
      | Inr slo \<Rightarrow> Inr (setAlerts specSLO slo))"

text \<open>The \<^verbatim>\<open>for ... range spec.SLOs\<close> loop, \<open>models\<close> its accumulator.\<close>

fun mapSpecToModel_loop ::
  "YAMLSpecLoader \<Rightarrow> Spec \<Rightarrow> v1_SLO list \<Rightarrow> SLO list \<Rightarrow> SLOGroup option \<times> error option" where
  "mapSpecToModel_loop y spec [] models = (Some \<lparr>SLOs = models\<rparr>, None)"
| "mapSpecToModel_loop y spec (specSLO # rest) models =
     (case mapSpecToModel_body y spec specSLO of
        Inl err \<Rightarrow> (None, Some err)
      | Inr slo \<Rightarrow> mapSpecToModel_loop y spec rest (models @ [slo]))"

definition mapSpecToModel :: "YAMLSpecLoader \<Rightarrow> Spec \<Rightarrow> SLOGroup option \<times> error option" where
  "mapSpecToModel y spec = mapSpecToModel_loop y spec (v1_SLOs spec) []"

text \<open>
  \<^verbatim>\<open>LoadSpec\<close>.  \<^verbatim>\<open>yaml.Unmarshal\<close> belongs to the library \<^verbatim>\<open>gopkg.in/yaml.v2\<close>; it is the
  parameter \<open>yaml_Unmarshal\<close>, from the bytes to the decoded \<^verbatim>\<open>Spec\<close> and the error.
\<close>

definition LoadSpec ::
  "YAMLSpecLoader \<Rightarrow> (bytes \<Rightarrow> Spec \<times> error option) \<Rightarrow> bytes \<Rightarrow> SLOGroup option \<times> error option" where
  "LoadSpec y yaml_Unmarshal data =
     (if length data = 0 then (None, Some EmptySpec)
      else
        (case yaml_Unmarshal data of
           (s, Some err) \<Rightarrow> (None, Some (MalformedSpec err))
         | (s, None) \<Rightarrow>
             if v1_Version s \<noteq> prometheusv1_Version
             then (None, Some (UnsupportedVersion prometheusv1_Version))
             else if length (v1_SLOs s) = 0 then (None, Some NoSLOs)
             else
               (case mapSpecToModel y s of
                  (m, Some err) \<Rightarrow> (None, Some (CouldNotMapToModel err))
                | (m, None) \<Rightarrow> (m, None))))"

section \<open>Fixtures\<close>

text \<open>
  The inputs of \<^verbatim>\<open>spec_test.go\<close>, as the decoder delivers them, and variations on them.
  \<open>index m k\<close> is Go's \<^verbatim>\<open>m[k]\<close> on a string map: the empty string for a missing key.
\<close>

definition index :: "strmap \<Rightarrow> string \<Rightarrow> string" where
  "index m k = (case m k of None \<Rightarrow> '''' | Some v \<Rightarrow> v)"

text \<open>A decoder that accepts its input as the spec \<open>s\<close>, and one that rejects it.\<close>

definition decodes_to :: "Spec \<Rightarrow> bytes \<Rightarrow> Spec \<times> error option" where
  "decodes_to s data = (s, None)"

definition zero_Spec :: Spec where
  "zero_Spec = \<lparr>v1_Version = '''', v1_Service = '''', v1_Labels = Map.empty, v1_SLOs = []\<rparr>"

definition rejects :: "string \<Rightarrow> bytes \<Rightarrow> Spec \<times> error option" where
  "rejects msg data = (zero_Spec, Some (External msg))"

text \<open>The two plugins of the test: one composes a query from what it is given, one fails.\<close>

definition test_plugin_Func :: "strmap \<Rightarrow> strmap \<Rightarrow> strmap \<Rightarrow> string \<times> error option" where
  "test_plugin_Func meta labels options =
     (''plugin_raw_expr{service='' @ [CHR 0x22] @ index meta ''service'' @ [CHR 0x22] @
      '',slo='' @ [CHR 0x22] @ index meta ''slo'' @ [CHR 0x22] @
      '',objective='' @ [CHR 0x22] @ index meta ''objective'' @ [CHR 0x22] @
      '',gk1='' @ [CHR 0x22] @ index labels ''gk1'' @ [CHR 0x22] @
      '',k1='' @ [CHR 0x22] @ index options ''k1'' @ [CHR 0x22] @
      '',k2='' @ [CHR 0x22] @ index options ''k2'' @ [CHR 0x22] @ ''}'', None)"

definition failing_plugin_Func :: "strmap \<Rightarrow> strmap \<Rightarrow> strmap \<Rightarrow> string \<times> error option" where
  "failing_plugin_Func meta labels options = ('''', Some (External ''something''))"

definition test_loader :: YAMLSpecLoader where
  "test_loader = NewYAMLSpecLoader
     [''test_plugin'' \<mapsto> \<lparr>PluginID = ''test_plugin'', Func = test_plugin_Func\<rparr>]"

definition failing_loader :: YAMLSpecLoader where
  "failing_loader = NewYAMLSpecLoader
     [''test_plugin'' \<mapsto> \<lparr>PluginID = ''test_plugin'', Func = failing_plugin_Func\<rparr>]"

definition empty_loader :: YAMLSpecLoader where
  "empty_loader = NewYAMLSpecLoader Map.empty"

text \<open>Alerting blocks: both alerts disabled, and the one of the test's first SLO.\<close>

definition disabled_Alert :: v1_Alert where
  "disabled_Alert = \<lparr>v1_Disable = True, v1_AlertLabels = Map.empty, v1_AlertAnnotations = Map.empty\<rparr>"

definition disabled_Alerting :: v1_Alerting where
  "disabled_Alerting = \<lparr>v1_AlertingName = '''', v1_AlertingLabels = Map.empty,
     v1_AlertingAnnotations = Map.empty, v1_PageAlert = disabled_Alert, v1_TicketAlert = disabled_Alert\<rparr>"

definition test_Alerting :: v1_Alerting where
  "test_Alerting =
     \<lparr>v1_AlertingName = ''testAlert'',
      v1_AlertingLabels = [''tier'' \<mapsto> ''1''],
      v1_AlertingAnnotations = [''runbook'' \<mapsto> ''http://whatever.com''],
      v1_PageAlert = \<lparr>v1_Disable = False,
        v1_AlertLabels = [''severity'' \<mapsto> ''slack'', ''channel'' \<mapsto> ''#a-myteam''],
        v1_AlertAnnotations = [''message'' \<mapsto> ''This is very important.'']\<rparr>,
      v1_TicketAlert = \<lparr>v1_Disable = False,
        v1_AlertLabels = [''severity'' \<mapsto> ''slack'', ''channel'' \<mapsto> ''#a-not-so-important''],
        v1_AlertAnnotations = [''message'' \<mapsto> ''This is not very important.'']\<rparr>\<rparr>"

text \<open>Signal sources.\<close>

definition events_SLI :: v1_SLI where
  "events_SLI = \<lparr>v1_Events = Some \<lparr>v1_ErrorQuery = ''test_expr_error_1'',
                                     v1_TotalQuery = ''test_expr_total_1''\<rparr>,
                  v1_Raw = None, v1_Plugin = None\<rparr>"

definition raw_SLI :: v1_SLI where
  "raw_SLI = \<lparr>v1_Events = None,
               v1_Raw = Some \<lparr>v1_ErrorRatioQuery = ''test_expr_ratio_2''\<rparr>, v1_Plugin = None\<rparr>"

definition plugin_SLI :: "string \<Rightarrow> v1_SLI" where
  "plugin_SLI pid = \<lparr>v1_Events = None, v1_Raw = None,
     v1_Plugin = Some \<lparr>v1_ID = pid, v1_Options = [''k1'' \<mapsto> ''v1'', ''k2'' \<mapsto> ''true'']\<rparr>\<rparr>"

definition events_and_raw_SLI :: v1_SLI where
  "events_and_raw_SLI = \<lparr>v1_Events = Some \<lparr>v1_ErrorQuery = ''test_expr_error_1'',
                                             v1_TotalQuery = ''test_expr_total_1''\<rparr>,
                          v1_Raw = Some \<lparr>v1_ErrorRatioQuery = ''test_expr_ratio_2''\<rparr>,
                          v1_Plugin = None\<rparr>"

text \<open>
  SLO declarations and specs.  The objectives are the doubles nearest to 99.99, 99.9
  and 99.
\<close>

definition test_SLO :: "string \<Rightarrow> v1_SLI \<Rightarrow> v1_Alerting \<Rightarrow> v1_SLO" where
  "test_SLO name sli alerting =
     \<lparr>v1_Name = name, v1_Description = '''', v1_Objective = Finite False 99 0,
      v1_SLOLabels = Map.empty, v1_SLI = sli, v1_Alerting = alerting\<rparr>"

definition test_Spec :: "string \<Rightarrow> v1_SLO list \<Rightarrow> Spec" where
  "test_Spec service slos =
     \<lparr>v1_Version = ''prometheus/v1'', v1_Service = service,
      v1_Labels = [''gk1'' \<mapsto> ''gv1''], v1_SLOs = slos\<rparr>"

definition plugin_spec :: Spec where
  "plugin_spec = test_Spec ''test-svc'' [test_SLO ''slo-test'' (plugin_SLI ''test_plugin'') disabled_Alerting]"

definition correct_spec :: Spec where
  "correct_spec =
     \<lparr>v1_Version = ''prometheus/v1'', v1_Service = ''test-svc'',
      v1_Labels = [''owner'' \<mapsto> ''myteam''],
      v1_SLOs =
        [\<lparr>v1_Name = ''slo1'', v1_Description = ''This is a test.'',
          v1_Objective = Finite False 7036170730324623 46,
          v1_SLOLabels = [''category'' \<mapsto> ''test''],
          v1_SLI = events_SLI, v1_Alerting = test_Alerting\<rparr>,
         \<lparr>v1_Name = ''slo2'', v1_Description = '''',
          v1_Objective = Finite False 3514918771674317 45,
          v1_SLOLabels = [''category'' \<mapsto> ''test2''],
          v1_SLI = raw_SLI, v1_Alerting = disabled_Alerting\<rparr>]\<rparr>"

text \<open>What the test expects \<^verbatim>\<open>LoadSpec\<close> to return for the two specs above.\<close>

definition disabled_AlertMeta :: AlertMeta where
  "disabled_AlertMeta = \<lparr>Disable = True, AlertName = '''', AlertLabels = Map.empty,
                          AlertAnnotations = Map.empty\<rparr>"

definition plugin_model :: SLOGroup where
  "plugin_model = \<lparr>SLOs =
     [\<lparr>ID = ''test-svc-slo-test'', Name = ''slo-test'', Description = '''',
       Service = ''test-svc'', TimeWindow = 30 * 24 * time_Hour,
       Objective = Finite False 99 0, Labels = [''gk1'' \<mapsto> ''gv1''],
       SLI = \<lparr>Events = None, Raw = Some \<lparr>ErrorRatioQuery =
         ''plugin_raw_expr{service='' @ [CHR 0x22] @ ''test-svc'' @ [CHR 0x22] @
         '',slo='' @ [CHR 0x22] @ ''slo-test'' @ [CHR 0x22] @
         '',objective='' @ [CHR 0x22] @ ''99.000000'' @ [CHR 0x22] @
         '',gk1='' @ [CHR 0x22] @ ''gv1'' @ [CHR 0x22] @
         '',k1='' @ [CHR 0x22] @ ''v1'' @ [CHR 0x22] @
         '',k2='' @ [CHR 0x22] @ ''true'' @ [CHR 0x22] @ ''}''\<rparr>\<rparr>,
       PageAlertMeta = disabled_AlertMeta, TicketAlertMeta = disabled_AlertMeta\<rparr>]\<rparr>"

definition correct_model :: SLOGroup where
  "correct_model = \<lparr>SLOs =
     [\<lparr>ID = ''test-svc-slo1'', Name = ''slo1'', Description = ''This is a test.'',
       Service = ''test-svc'', TimeWindow = 30 * 24 * time_Hour,
       Objective = Finite False 7036170730324623 46,
       Labels = [''owner'' \<mapsto> ''myteam'', ''category'' \<mapsto> ''test''],
       SLI = \<lparr>Events = Some \<lparr>ErrorQuery = ''test_expr_error_1'',
                               TotalQuery = ''test_expr_total_1''\<rparr>, Raw = None\<rparr>,
       PageAlertMeta = \<lparr>Disable = False, AlertName = ''testAlert'',
         AlertLabels = [''tier'' \<mapsto> ''1'', ''severity'' \<mapsto> ''slack'', ''channel'' \<mapsto> ''#a-myteam''],
         AlertAnnotations = [''runbook'' \<mapsto> ''http://whatever.com'',
                             ''message'' \<mapsto> ''This is very important.'']\<rparr>,
       TicketAlertMeta = \<lparr>Disable = False, AlertName = ''testAlert'',
         AlertLabels = [''tier'' \<mapsto> ''1'', ''severity'' \<mapsto> ''slack'',
                        ''channel'' \<mapsto> ''#a-not-so-important''],
         AlertAnnotations = [''runbook'' \<mapsto> ''http://whatever.com'',
                             ''message'' \<mapsto> ''This is not very important.'']\<rparr>\<rparr>,
      \<lparr>ID = ''test-svc-slo2'', Name = ''slo2'', Description = '''',
       Service = ''test-svc'', TimeWindow = 30 * 24 * time_Hour,
       Objective = Finite False 3514918771674317 45,
       Labels = [''owner'' \<mapsto> ''myteam'', ''category'' \<mapsto> ''test2''],
       SLI = \<lparr>Events = None, Raw = Some \<lparr>ErrorRatioQuery = ''test_expr_ratio_2''\<rparr>\<rparr>,
       PageAlertMeta = disabled_AlertMeta, TicketAlertMeta = disabled_AlertMeta\<rparr>]\<rparr>"

text \<open>
  Variations: a declaration with no alerting block, declarations that name more than
  one signal source, a declaration that names none, a spec with no service, and an
  objective that is not a number.
\<close>

definition no_alerting_spec :: Spec where
  "no_alerting_spec = test_Spec ''test-svc'' [test_SLO ''slo-test'' raw_SLI zero_Alerting]"

definition raw_and_plugin_SLI :: v1_SLI where
  "raw_and_plugin_SLI = \<lparr>v1_Events = None,
     v1_Raw = Some \<lparr>v1_ErrorRatioQuery = ''test_expr_ratio_2''\<rparr>,
     v1_Plugin = Some \<lparr>v1_ID = ''test_plugin'', v1_Options = Map.empty\<rparr>\<rparr>"

definition overlap_spec :: Spec where
  "overlap_spec = test_Spec ''test-svc''
     [test_SLO ''slo1'' events_and_raw_SLI disabled_Alerting,
      test_SLO ''slo2'' raw_and_plugin_SLI disabled_Alerting]"

definition no_source_spec :: Spec where
  "no_source_spec = test_Spec ''test-svc''
     [test_SLO ''slo1'' zero_SLI disabled_Alerting, test_SLO ''slo2'' raw_SLI disabled_Alerting]"

definition no_service_spec :: Spec where
  "no_service_spec = test_Spec ''''
     [test_SLO ''slo1'' events_SLI disabled_Alerting,
      test_SLO ''slo2'' raw_SLI disabled_Alerting,
      test_SLO ''slo3'' (plugin_SLI ''test_plugin'') disabled_Alerting]"

definition nan_plugin_spec :: Spec where
  "nan_plugin_spec = test_Spec ''test-svc''
     [(test_SLO ''slo-test'' (plugin_SLI ''test_plugin'') disabled_Alerting)
        \<lparr>v1_Objective := NaN\<rparr>]"

definition late_plugin_spec :: Spec where
  "late_plugin_spec = test_Spec ''test-svc''
     [test_SLO ''slo1'' raw_SLI disabled_Alerting,
      test_SLO ''slo2'' (plugin_SLI ''test_plugin'') disabled_Alerting]"

definition v2_spec :: Spec where
  "v2_spec = \<lparr>v1_Version = ''prometheus/v2'', v1_Service = ''test-svc'', v1_Labels = Map.empty,
               v1_SLOs = []\<rparr>"

definition no_slos_spec :: Spec where
  "no_slos_spec = test_Spec ''test-svc'' []"

definition labelled_plugin_spec :: Spec where
  "labelled_plugin_spec = test_Spec ''test-svc''
     [(test_SLO ''slo-test'' (plugin_SLI ''test_plugin'') disabled_Alerting)
        \<lparr>v1_SLOLabels := [''gk1'' \<mapsto> ''slo-level'']\<rparr>]"

text \<open>The SLOs of a load that returned a group and no error.\<close>

definition loaded :: "SLOGroup option \<times> error option \<Rightarrow> SLO list" where
  "loaded r = (case r of (Some g, None) \<Rightarrow> SLOs g | _ \<Rightarrow> [])"

text \<open>The number of signal sources a declaration names.\<close>

definition signal_sources :: "v1_SLI \<Rightarrow> nat" where
  "signal_sources sli =
     (if v1_Events sli = None then 0 else 1) + (if v1_Raw sli = None then 0 else 1) +
     (if v1_Plugin sli = None then 0 else 1)"

section \<open>Evaluation and structure of the loop\<close>

lemmas loader_defs =
  LoadSpec_def mapSpecToModel_def mapSpecToModel_body_def setSLIs_def setPlugin_def setRaw_def
  setEvents_def setAlerts_def newSLO_def pluginMeta_def mergeLabels_def NewYAMLSpecLoader_def
  prometheusv1_Version_def SLIPluginMetaService_def SLIPluginMetaSLO_def
  SLIPluginMetaObjective_def Let_def

lemmas sprintf_defs = round_half_even_def itoa.simps frac6_def digit_def Let_def

lemmas fixture_defs =
  index_def decodes_to_def rejects_def zero_Spec_def test_plugin_Func_def failing_plugin_Func_def
  test_loader_def failing_loader_def empty_loader_def disabled_Alert_def disabled_Alerting_def
  test_Alerting_def events_SLI_def raw_SLI_def plugin_SLI_def events_and_raw_SLI_def
  test_SLO_def test_Spec_def plugin_spec_def correct_spec_def disabled_AlertMeta_def
  plugin_model_def correct_model_def zero_Alert_def zero_Alerting_def zero_SLI_def
  no_alerting_spec_def raw_and_plugin_SLI_def overlap_spec_def no_source_spec_def
  no_service_spec_def late_plugin_spec_def v2_spec_def no_slos_spec_def loaded_def
  labelled_plugin_spec_def nan_plugin_spec_def

text \<open>The test's two positive cases, replayed on the model.\<close>

lemma LoadSpec_plugin_spec:
  "LoadSpec test_loader (decodes_to plugin_spec) ''spec'' = (Some plugin_model, None)"
  by (simp add: loader_defs fixture_defs sprintf_defs)

lemma LoadSpec_correct_spec:
  "LoadSpec empty_loader (decodes_to correct_spec) ''spec'' = (Some correct_model, None)"
  by (simp add: loader_defs fixture_defs)

text \<open>The loop returns a group or an error, never both and never neither.\<close>

lemma loop_result_shape:
  "mapSpecToModel_loop y spec xs models = (g, e) \<Longrightarrow> (g = None) = (e \<noteq> None)"
  by (induction xs arbitrary: models) (auto split: sum.splits)

text \<open>A run that returns a group appended one SLO per declaration, in order.\<close>

lemma loop_success_imp:
  "mapSpecToModel_loop y spec xs models = (Some g, e) \<Longrightarrow>
     \<exists>ys. SLOs g = models @ ys \<and> map (mapSpecToModel_body y spec) xs = map Inr ys"
proof (induction xs arbitrary: models)
  case Nil
  then show ?case by auto
next
  case (Cons x xs)
  then obtain slo where b: "mapSpecToModel_body y spec x = Inr slo"
    and r: "mapSpecToModel_loop y spec xs (models @ [slo]) = (Some g, e)"
    by (auto split: sum.splits)
  from Cons.IH [OF r] obtain ys where "SLOs g = (models @ [slo]) @ ys"
    and "map (mapSpecToModel_body y spec) xs = map Inr ys" by blast
  with b have "SLOs g = models @ (slo # ys) \<and>
     map (mapSpecToModel_body y spec) (x # xs) = map Inr (slo # ys)" by simp
  then show ?case by blast
qed

lemma loop_success_intro:
  "map (mapSpecToModel_body y spec) xs = map Inr ys \<Longrightarrow>
     mapSpecToModel_loop y spec xs models = (Some \<lparr>SLOs = models @ ys\<rparr>, None)"
proof (induction xs arbitrary: models ys)
  case Nil
  then show ?case by simp
next
  case (Cons x xs)
  then obtain slo zs where ys: "ys = slo # zs" and b: "mapSpecToModel_body y spec x = Inr slo"
    and m: "map (mapSpecToModel_body y spec) xs = map Inr zs"
    by (cases ys) auto
  from Cons.IH [OF m, of "models @ [slo]"] b ys show ?case by simp
qed

text \<open>The first declaration whose body returns an error ends the loop with that error.\<close>

lemma loop_failure_intro:
  "\<forall>p \<in> set pre. \<exists>slo. mapSpecToModel_body y spec p = Inr slo \<Longrightarrow>
   mapSpecToModel_body y spec s = Inl err \<Longrightarrow>
   mapSpecToModel_loop y spec (pre @ s # post) models = (None, Some err)"
  by (induction pre arbitrary: models) (auto split: sum.splits)

lemma loop_some_failure:
  "\<exists>s \<in> set xs. \<exists>err. mapSpecToModel_body y spec s = Inl err \<Longrightarrow>
   \<exists>err. mapSpecToModel_loop y spec xs models = (None, Some err)"
  by (induction xs arbitrary: models) (auto split: sum.splits)

text \<open>What a successful \<^verbatim>\<open>LoadSpec\<close> tells about its input.\<close>

lemma LoadSpec_success:
  assumes "yaml_Unmarshal data = (spec, e0)"
    and "LoadSpec y yaml_Unmarshal data = (Some g, e)"
  shows "e = None \<and> e0 = None \<and> data \<noteq> [] \<and> v1_Version spec = prometheusv1_Version \<and>
         v1_SLOs spec \<noteq> [] \<and>
         map (mapSpecToModel_body y spec) (v1_SLOs spec) = map Inr (SLOs g)"
  using assms loop_success_imp [of y spec "v1_SLOs spec" "[]" g]
  by (auto simp: LoadSpec_def mapSpecToModel_def split: if_splits option.splits prod.splits)

lemma LoadSpec_success_nth:
  assumes "yaml_Unmarshal data = (spec, e0)"
    and "LoadSpec y yaml_Unmarshal data = (Some g, e)"
    and "i < length (v1_SLOs spec)"
  shows "mapSpecToModel_body y spec (v1_SLOs spec ! i) = Inr (SLOs g ! i)"
proof -
  from LoadSpec_success [OF assms(1,2)]
  have m: "map (mapSpecToModel_body y spec) (v1_SLOs spec) = map Inr (SLOs g)" by simp
  then have "length (v1_SLOs spec) = length (SLOs g)" by (metis length_map)
  with assms(3) have "i < length (SLOs g)" by simp
  with assms(3) m show ?thesis by (metis nth_map)
qed

lemma LoadSpec_accepts:
  assumes "data \<noteq> []" and "yaml_Unmarshal data = (spec, None)"
    and "v1_Version spec = prometheusv1_Version" and "v1_SLOs spec \<noteq> []"
    and "map (mapSpecToModel_body y spec) (v1_SLOs spec) = map Inr ys"
  shows "LoadSpec y yaml_Unmarshal data = (Some \<lparr>SLOs = ys\<rparr>, None)"
  using assms loop_success_intro [OF assms(5), of "[]"]
  by (simp add: LoadSpec_def mapSpecToModel_def)

text \<open>The fields of the SLO one pass of the body appends.\<close>

lemma setPlugin_keeps:
  "setPlugin y spec s slo = Inr slo' \<Longrightarrow>
     ID slo' = ID slo \<and> Name slo' = Name slo \<and> Service slo' = Service slo \<and>
     PageAlertMeta slo' = PageAlertMeta slo \<and> TicketAlertMeta slo' = TicketAlertMeta slo \<and>
     Events (SLI slo') = Events (SLI slo)"
  by (auto simp: setPlugin_def split: option.splits prod.splits)

lemma body_ID:
  "mapSpecToModel_body y spec s = Inr slo \<Longrightarrow>
     ID slo = v1_Service spec @ ''-'' @ v1_Name s \<and> Name slo = v1_Name s \<and>
     Service slo = v1_Service spec"
  by (auto simp: mapSpecToModel_body_def setSLIs_def setRaw_def setEvents_def setAlerts_def
      newSLO_def Let_def split: sum.splits option.splits dest!: setPlugin_keeps)

section \<open>Identity and order of the loaded SLOs\<close>

text \<open>
  C7: for every SLO produced by a successful \<^verbatim>\<open>LoadSpec\<close>, its ID equals the service
  name concatenated with a literal hyphen and the SLO name, verbatim.
\<close>

theorem LoadSpec_ID:
  assumes "yaml_Unmarshal data = (spec, None)"
    and "LoadSpec y yaml_Unmarshal data = (Some g, None)"
    and "i < length (SLOs g)"
  shows "ID (SLOs g ! i) = v1_Service spec @ ''-'' @ v1_Name (v1_SLOs spec ! i)"
proof -
  from LoadSpec_success [OF assms(1,2)]
  have "map (mapSpecToModel_body y spec) (v1_SLOs spec) = map Inr (SLOs g)" by simp
  then have "length (v1_SLOs spec) = length (SLOs g)" by (metis length_map)
  with assms(3) have "i < length (v1_SLOs spec)" by simp
  from LoadSpec_success_nth [OF assms(1,2) this] show ?thesis by (simp add: body_ID)
qed

theorem LoadSpec_ID_witness:
  "decodes_to correct_spec ''spec'' = (correct_spec, None) \<and>
   LoadSpec empty_loader (decodes_to correct_spec) ''spec'' = (Some correct_model, None) \<and>
   1 < length (SLOs correct_model) \<and>
   ID (SLOs correct_model ! 1) = ''test-svc-slo2''"
proof -
  have d: "decodes_to correct_spec ''spec'' = (correct_spec, None)"
    by (simp add: decodes_to_def)
  have n: "1 < length (SLOs correct_model)"
    by (simp add: correct_model_def)
  from LoadSpec_ID [OF d LoadSpec_correct_spec n] d n LoadSpec_correct_spec
  show ?thesis by (simp add: correct_spec_def)
qed

text \<open>
  C8: for every input accepted by \<^verbatim>\<open>LoadSpec\<close>, the produced \<^verbatim>\<open>SLOGroup.SLOs\<close> has
  exactly one SLO per input declaration, its length equals the input SLO count, and
  it preserves the input declaration order: the SLO at each position is the one the
  loop body makes of the declaration at that position, and carries its name.
\<close>

theorem LoadSpec_one_per_declaration:
  assumes "yaml_Unmarshal data = (spec, None)"
    and "LoadSpec y yaml_Unmarshal data = (Some g, None)"
  shows "length (SLOs g) = length (v1_SLOs spec) \<and>
         map (mapSpecToModel_body y spec) (v1_SLOs spec) = map Inr (SLOs g) \<and>
         map Name (SLOs g) = map v1_Name (v1_SLOs spec)"
proof -
  from LoadSpec_success [OF assms]
  have m: "map (mapSpecToModel_body y spec) (v1_SLOs spec) = map Inr (SLOs g)" by simp
  then have l: "length (SLOs g) = length (v1_SLOs spec)" by (metis length_map)
  have "Name (SLOs g ! i) = v1_Name (v1_SLOs spec ! i)" if "i < length (v1_SLOs spec)" for i
    using LoadSpec_success_nth [OF assms that] by (simp add: body_ID)
  with l have "map Name (SLOs g) = map v1_Name (v1_SLOs spec)"
    by (simp add: list_eq_iff_nth_eq)
  with m l show ?thesis by simp
qed

theorem LoadSpec_one_per_declaration_witness:
  "decodes_to correct_spec ''spec'' = (correct_spec, None) \<and>
   LoadSpec empty_loader (decodes_to correct_spec) ''spec'' = (Some correct_model, None) \<and>
   length (SLOs correct_model) = 2 \<and>
   map Name (SLOs correct_model) = [''slo1'', ''slo2'']"
proof -
  have d: "decodes_to correct_spec ''spec'' = (correct_spec, None)"
    by (simp add: decodes_to_def)
  from LoadSpec_one_per_declaration [OF d LoadSpec_correct_spec] d LoadSpec_correct_spec
  show ?thesis by (simp add: correct_spec_def)
qed

section \<open>Alert metadata\<close>

lemma body_alerts:
  assumes "mapSpecToModel_body y spec s = Inr slo"
  shows "PageAlertMeta slo =
           (if v1_Disable (v1_PageAlert (v1_Alerting s))
            then \<lparr>Disable = True, AlertName = '''', AlertLabels = Map.empty,
                  AlertAnnotations = Map.empty\<rparr>
            else \<lparr>Disable = False, AlertName = v1_AlertingName (v1_Alerting s),
                  AlertLabels = mergeLabels (v1_AlertingLabels (v1_Alerting s))
                                  (v1_AlertLabels (v1_PageAlert (v1_Alerting s))),
                  AlertAnnotations = mergeLabels (v1_AlertingAnnotations (v1_Alerting s))
                                       (v1_AlertAnnotations (v1_PageAlert (v1_Alerting s)))\<rparr>)"
    and "TicketAlertMeta slo =
           (if v1_Disable (v1_TicketAlert (v1_Alerting s))
            then \<lparr>Disable = True, AlertName = '''', AlertLabels = Map.empty,
                  AlertAnnotations = Map.empty\<rparr>
            else \<lparr>Disable = False, AlertName = v1_AlertingName (v1_Alerting s),
                  AlertLabels = mergeLabels (v1_AlertingLabels (v1_Alerting s))
                                  (v1_AlertLabels (v1_TicketAlert (v1_Alerting s))),
                  AlertAnnotations = mergeLabels (v1_AlertingAnnotations (v1_Alerting s))
                                       (v1_AlertAnnotations (v1_TicketAlert (v1_Alerting s)))\<rparr>)"
proof -
  from assms obtain slo0 where s0: "setSLIs y spec s (newSLO spec s) = Inr slo0"
    and slo: "slo = setAlerts s slo0"
    by (auto simp: mapSpecToModel_body_def split: sum.splits)
  from s0 have p: "PageAlertMeta slo0 = PageAlertMeta (newSLO spec s)"
    and t: "TicketAlertMeta slo0 = TicketAlertMeta (newSLO spec s)"
    by (auto simp: setSLIs_def setRaw_def setEvents_def split: option.splits
        dest!: setPlugin_keeps)
  show "PageAlertMeta slo =
           (if v1_Disable (v1_PageAlert (v1_Alerting s))
            then \<lparr>Disable = True, AlertName = '''', AlertLabels = Map.empty,
                  AlertAnnotations = Map.empty\<rparr>
            else \<lparr>Disable = False, AlertName = v1_AlertingName (v1_Alerting s),
                  AlertLabels = mergeLabels (v1_AlertingLabels (v1_Alerting s))
                                  (v1_AlertLabels (v1_PageAlert (v1_Alerting s))),
                  AlertAnnotations = mergeLabels (v1_AlertingAnnotations (v1_Alerting s))
                                       (v1_AlertAnnotations (v1_PageAlert (v1_Alerting s)))\<rparr>)"
    using p by (simp add: slo setAlerts_def newSLO_def Let_def)
  show "TicketAlertMeta slo =
           (if v1_Disable (v1_TicketAlert (v1_Alerting s))
            then \<lparr>Disable = True, AlertName = '''', AlertLabels = Map.empty,
                  AlertAnnotations = Map.empty\<rparr>
            else \<lparr>Disable = False, AlertName = v1_AlertingName (v1_Alerting s),
                  AlertLabels = mergeLabels (v1_AlertingLabels (v1_Alerting s))
                                  (v1_AlertLabels (v1_TicketAlert (v1_Alerting s))),
                  AlertAnnotations = mergeLabels (v1_AlertingAnnotations (v1_Alerting s))
                                       (v1_AlertAnnotations (v1_TicketAlert (v1_Alerting s)))\<rparr>)"
    using t by (simp add: slo setAlerts_def newSLO_def Let_def)
qed

text \<open>
  C1, as the spec states it, fails: a declaration with no alerting block decodes to
  the zero value, whose two \<^verbatim>\<open>disable\<close> flags are false, so both \<^verbatim>\<open>if\<close> statements
  of "Set alerts" replace the disabled default.
\<close>

theorem absent_alerting_counterexample:
  "v1_Alerting (v1_SLOs no_alerting_spec ! 0) = zero_Alerting \<and>
   map_option (map (Disable \<circ> PageAlertMeta) \<circ> SLOs)
     (fst (LoadSpec empty_loader (decodes_to no_alerting_spec) ''spec'')) = Some [False] \<and>
   map_option (map (Disable \<circ> TicketAlertMeta) \<circ> SLOs)
     (fst (LoadSpec empty_loader (decodes_to no_alerting_spec) ''spec'')) = Some [False]"
  by (simp add: loader_defs fixture_defs)

text \<open>
  C1, amended: in every SLO produced by \<^verbatim>\<open>LoadSpec\<close>, \<^verbatim>\<open>PageAlertMeta.Disable\<close> and
  \<^verbatim>\<open>TicketAlertMeta.Disable\<close> equal the declaration's \<^verbatim>\<open>page_alert.disable\<close> and
  \<^verbatim>\<open>ticket_alert.disable\<close>; so an SLO whose alerting block is entirely absent has
  \<^verbatim>\<open>Disable == false\<close> for both, with an empty name and no labels or annotations.
\<close>

theorem absent_alerting_enabled:
  assumes "yaml_Unmarshal data = (spec, None)"
    and "LoadSpec y yaml_Unmarshal data = (Some g, None)"
    and "i < length (v1_SLOs spec)"
  shows "Disable (PageAlertMeta (SLOs g ! i)) = v1_Disable (v1_PageAlert (v1_Alerting (v1_SLOs spec ! i))) \<and>
         Disable (TicketAlertMeta (SLOs g ! i)) = v1_Disable (v1_TicketAlert (v1_Alerting (v1_SLOs spec ! i))) \<and>
         (v1_Alerting (v1_SLOs spec ! i) = zero_Alerting \<longrightarrow>
            PageAlertMeta (SLOs g ! i) =
              \<lparr>Disable = False, AlertName = '''', AlertLabels = Map.empty, AlertAnnotations = Map.empty\<rparr> \<and>
            TicketAlertMeta (SLOs g ! i) =
              \<lparr>Disable = False, AlertName = '''', AlertLabels = Map.empty, AlertAnnotations = Map.empty\<rparr>)"
proof -
  note b = body_alerts [OF LoadSpec_success_nth [OF assms]]
  show ?thesis
    by (simp add: b zero_Alerting_def zero_Alert_def mergeLabels_def)
qed

theorem absent_alerting_enabled_witness:
  "decodes_to no_alerting_spec ''spec'' = (no_alerting_spec, None) \<and>
   LoadSpec empty_loader (decodes_to no_alerting_spec) ''spec'' =
     (Some \<lparr>SLOs = loaded (LoadSpec empty_loader (decodes_to no_alerting_spec) ''spec'')\<rparr>, None) \<and>
   0 < length (v1_SLOs no_alerting_spec) \<and>
   v1_Alerting (v1_SLOs no_alerting_spec ! 0) = zero_Alerting \<and>
   PageAlertMeta (loaded (LoadSpec empty_loader (decodes_to no_alerting_spec) ''spec'') ! 0) =
     \<lparr>Disable = False, AlertName = '''', AlertLabels = Map.empty, AlertAnnotations = Map.empty\<rparr> \<and>
   TicketAlertMeta (loaded (LoadSpec empty_loader (decodes_to no_alerting_spec) ''spec'') ! 0) =
     \<lparr>Disable = False, AlertName = '''', AlertLabels = Map.empty, AlertAnnotations = Map.empty\<rparr>"
proof -
  have d: "decodes_to no_alerting_spec ''spec'' = (no_alerting_spec, None)"
    by (simp add: decodes_to_def)
  have l: "LoadSpec empty_loader (decodes_to no_alerting_spec) ''spec'' =
     (Some \<lparr>SLOs = loaded (LoadSpec empty_loader (decodes_to no_alerting_spec) ''spec'')\<rparr>, None)"
    by (simp add: loader_defs fixture_defs)
  have n: "0 < length (v1_SLOs no_alerting_spec)"
    by (simp add: fixture_defs)
  have z: "v1_Alerting (v1_SLOs no_alerting_spec ! 0) = zero_Alerting"
    by (simp add: no_alerting_spec_def test_Spec_def test_SLO_def)
  from absent_alerting_enabled [OF d l n] z
  have "PageAlertMeta (loaded (LoadSpec empty_loader (decodes_to no_alerting_spec) ''spec'') ! 0) =
     \<lparr>Disable = False, AlertName = '''', AlertLabels = Map.empty, AlertAnnotations = Map.empty\<rparr> \<and>
   TicketAlertMeta (loaded (LoadSpec empty_loader (decodes_to no_alerting_spec) ''spec'') ! 0) =
     \<lparr>Disable = False, AlertName = '''', AlertLabels = Map.empty, AlertAnnotations = Map.empty\<rparr>"
    by simp
  with d l n z show ?thesis by blast
qed

section \<open>Resolution of the signal source\<close>

text \<open>The \<^verbatim>\<open>SLI\<close> of the SLO one pass of the body appends.\<close>

lemma body_Events:
  assumes "mapSpecToModel_body y spec s = Inr slo"
  shows "Events (SLI slo) =
           map_option (\<lambda>ev. \<lparr>ErrorQuery = v1_ErrorQuery ev, TotalQuery = v1_TotalQuery ev\<rparr>)
             (v1_Events (v1_SLI s))"
proof -
  from assms obtain slo0 where s0: "setSLIs y spec s (newSLO spec s) = Inr slo0"
    and slo: "slo = setAlerts s slo0"
    by (auto simp: mapSpecToModel_body_def split: sum.splits)
  from s0 have "Events (SLI slo0) = Events (SLI (setRaw s (setEvents s (newSLO spec s))))"
    by (auto simp: setSLIs_def dest!: setPlugin_keeps)
  then show ?thesis
    by (simp add: slo setAlerts_def setRaw_def setEvents_def newSLO_def Let_def
        split: option.splits)
qed

lemma body_Raw_no_plugin:
  assumes "mapSpecToModel_body y spec s = Inr slo" and "v1_Plugin (v1_SLI s) = None"
  shows "Raw (SLI slo) =
           map_option (\<lambda>raw. \<lparr>ErrorRatioQuery = v1_ErrorRatioQuery raw\<rparr>) (v1_Raw (v1_SLI s))"
  using assms
  by (auto simp: mapSpecToModel_body_def setSLIs_def setPlugin_def setAlerts_def setRaw_def
      setEvents_def newSLO_def Let_def split: sum.splits option.splits)

lemma body_Raw_plugin:
  assumes "mapSpecToModel_body y spec s = Inr slo" and "v1_Plugin (v1_SLI s) = Some pl"
  shows "\<exists>plugin rawQuery. plugins y (v1_ID pl) = Some plugin \<and>
           Func plugin (pluginMeta spec s) (v1_Labels spec) (v1_Options pl) = (rawQuery, None) \<and>
           Raw (SLI slo) = Some \<lparr>ErrorRatioQuery = rawQuery\<rparr>"
  using assms
  by (auto simp: mapSpecToModel_body_def setSLIs_def setPlugin_def setAlerts_def setRaw_def
      setEvents_def newSLO_def Let_def split: sum.splits option.splits prod.splits)

lemma body_plugin_result:
  assumes "v1_Plugin (v1_SLI s) = Some pl"
  shows "mapSpecToModel_body y spec s =
           (case plugins y (v1_ID pl) of
              None \<Rightarrow> Inl (UnknownPlugin (v1_ID pl))
            | Some plugin \<Rightarrow>
                (case Func plugin (pluginMeta spec s) (v1_Labels spec) (v1_Options pl) of
                   (rawQuery, Some err) \<Rightarrow> Inl (PluginExecutionError (v1_ID pl) err)
                 | (rawQuery, None) \<Rightarrow>
                     Inr (setAlerts s (setRaw s (setEvents s (newSLO spec s))
                       \<lparr>SLI := (SLI (setRaw s (setEvents s (newSLO spec s))))
                          \<lparr>Raw := Some \<lparr>ErrorRatioQuery = rawQuery\<rparr>\<rparr>\<rparr>))))"
  using assms
  by (simp add: mapSpecToModel_body_def setSLIs_def setPlugin_def
      split: option.splits prod.splits)

lemma body_no_plugin_result:
  assumes "v1_Plugin (v1_SLI s) = None"
  shows "mapSpecToModel_body y spec s =
           Inr (setAlerts s (setRaw s (setEvents s (newSLO spec s))))"
  using assms by (simp add: mapSpecToModel_body_def setSLIs_def setPlugin_def)

text \<open>The metadata, key by key.\<close>

lemma pluginMeta_keys:
  "pluginMeta spec s =
     [''service'' \<mapsto> v1_Service spec, ''slo'' \<mapsto> v1_Name s,
      ''objective'' \<mapsto> sprintf_f (v1_Objective s)]"
  by (simp add: pluginMeta_def SLIPluginMetaService_def SLIPluginMetaSLO_def
      SLIPluginMetaObjective_def)

text \<open>
  C2, as the spec states it, fails: the three \<^verbatim>\<open>if\<close> statements are not chained by
  \<^verbatim>\<open>else\<close>.  A declaration with \<^verbatim>\<open>events\<close> and \<^verbatim>\<open>raw\<close> gets both copied, and for a
  declaration with \<^verbatim>\<open>raw\<close> and \<^verbatim>\<open>plugin\<close> the plugin's query, the last in the order,
  is the one kept.
\<close>

theorem first_match_counterexample:
  "map (signal_sources \<circ> v1_SLI) (v1_SLOs overlap_spec) = [2, 2] \<and>
   map_option (map SLI \<circ> SLOs)
     (fst (LoadSpec test_loader (decodes_to overlap_spec) ''spec'')) =
   Some [\<lparr>Events = Some \<lparr>ErrorQuery = ''test_expr_error_1'', TotalQuery = ''test_expr_total_1''\<rparr>,
          Raw = Some \<lparr>ErrorRatioQuery = ''test_expr_ratio_2''\<rparr>\<rparr>,
         \<lparr>Events = None,
          Raw = Some \<lparr>ErrorRatioQuery = fst (test_plugin_Func
            [''service'' \<mapsto> ''test-svc'', ''slo'' \<mapsto> ''slo2'', ''objective'' \<mapsto> ''99.000000'']
            [''gk1'' \<mapsto> ''gv1''] Map.empty)\<rparr>\<rparr>]"
  by (simp add: loader_defs fixture_defs sprintf_defs signal_sources_def)

text \<open>
  C2, amended: SLI resolution in \<^verbatim>\<open>LoadSpec\<close> runs three independent checks in the order
  \<^verbatim>\<open>events\<close>, \<^verbatim>\<open>raw\<close>, \<^verbatim>\<open>plugin\<close>.  If \<^verbatim>\<open>events\<close> is set both queries are copied verbatim
  into \<^verbatim>\<open>Events\<close>, whatever else is set; if \<^verbatim>\<open>plugin\<close> is set the plugin is looked up and
  invoked and its query becomes \<^verbatim>\<open>Raw\<close>, whatever else is set; if \<^verbatim>\<open>raw\<close> is set and
  \<^verbatim>\<open>plugin\<close> is not, the ratio query is copied verbatim into \<^verbatim>\<open>Raw\<close>.  So when more than
  one variant is present every one of them takes effect, and \<^verbatim>\<open>plugin\<close> overrides
  \<^verbatim>\<open>raw\<close>.
\<close>

theorem resolution_independent_checks:
  assumes "yaml_Unmarshal data = (spec, None)"
    and "LoadSpec y yaml_Unmarshal data = (Some g, None)"
    and "i < length (v1_SLOs spec)"
  shows "Events (SLI (SLOs g ! i)) =
           map_option (\<lambda>ev. \<lparr>ErrorQuery = v1_ErrorQuery ev, TotalQuery = v1_TotalQuery ev\<rparr>)
             (v1_Events (v1_SLI (v1_SLOs spec ! i))) \<and>
         (v1_Plugin (v1_SLI (v1_SLOs spec ! i)) = None \<longrightarrow>
            Raw (SLI (SLOs g ! i)) =
              map_option (\<lambda>raw. \<lparr>ErrorRatioQuery = v1_ErrorRatioQuery raw\<rparr>)
                (v1_Raw (v1_SLI (v1_SLOs spec ! i)))) \<and>
         (\<forall>pl. v1_Plugin (v1_SLI (v1_SLOs spec ! i)) = Some pl \<longrightarrow>
            (\<exists>plugin rawQuery. plugins y (v1_ID pl) = Some plugin \<and>
               Func plugin (pluginMeta spec (v1_SLOs spec ! i)) (v1_Labels spec) (v1_Options pl) =
                 (rawQuery, None) \<and>
               Raw (SLI (SLOs g ! i)) = Some \<lparr>ErrorRatioQuery = rawQuery\<rparr>))"
proof -
  note b = LoadSpec_success_nth [OF assms]
  from body_Events [OF b] body_Raw_no_plugin [OF b] body_Raw_plugin [OF b]
  show ?thesis by blast
qed

theorem resolution_independent_checks_witness:
  "decodes_to overlap_spec ''spec'' = (overlap_spec, None) \<and>
   LoadSpec test_loader (decodes_to overlap_spec) ''spec'' =
     (Some \<lparr>SLOs = loaded (LoadSpec test_loader (decodes_to overlap_spec) ''spec'')\<rparr>, None) \<and>
   1 < length (v1_SLOs overlap_spec) \<and>
   v1_Plugin (v1_SLI (v1_SLOs overlap_spec ! 0)) = None \<and>
   v1_Plugin (v1_SLI (v1_SLOs overlap_spec ! 1)) =
     Some \<lparr>v1_ID = ''test_plugin'', v1_Options = Map.empty\<rparr> \<and>
   SLI (loaded (LoadSpec test_loader (decodes_to overlap_spec) ''spec'') ! 0) =
     \<lparr>Events = Some \<lparr>ErrorQuery = ''test_expr_error_1'', TotalQuery = ''test_expr_total_1''\<rparr>,
      Raw = Some \<lparr>ErrorRatioQuery = ''test_expr_ratio_2''\<rparr>\<rparr> \<and>
   SLI (loaded (LoadSpec test_loader (decodes_to overlap_spec) ''spec'') ! 1) =
     \<lparr>Events = None,
      Raw = Some \<lparr>ErrorRatioQuery = fst (test_plugin_Func
        [''service'' \<mapsto> ''test-svc'', ''slo'' \<mapsto> ''slo2'', ''objective'' \<mapsto> ''99.000000'']
        [''gk1'' \<mapsto> ''gv1''] Map.empty)\<rparr>\<rparr>"
proof -
  have d: "decodes_to overlap_spec ''spec'' = (overlap_spec, None)"
    by (simp add: decodes_to_def)
  have l: "LoadSpec test_loader (decodes_to overlap_spec) ''spec'' =
     (Some \<lparr>SLOs = loaded (LoadSpec test_loader (decodes_to overlap_spec) ''spec'')\<rparr>, None)"
    by (simp add: loader_defs fixture_defs)
  have n0: "0 < length (v1_SLOs overlap_spec)" and n1: "1 < length (v1_SLOs overlap_spec)"
    by (simp_all add: fixture_defs)
  have rest: "v1_Plugin (v1_SLI (v1_SLOs overlap_spec ! 0)) = None \<and>
   v1_Plugin (v1_SLI (v1_SLOs overlap_spec ! 1)) =
     Some \<lparr>v1_ID = ''test_plugin'', v1_Options = Map.empty\<rparr> \<and>
   SLI (loaded (LoadSpec test_loader (decodes_to overlap_spec) ''spec'') ! 0) =
     \<lparr>Events = Some \<lparr>ErrorQuery = ''test_expr_error_1'', TotalQuery = ''test_expr_total_1''\<rparr>,
      Raw = Some \<lparr>ErrorRatioQuery = ''test_expr_ratio_2''\<rparr>\<rparr> \<and>
   SLI (loaded (LoadSpec test_loader (decodes_to overlap_spec) ''spec'') ! 1) =
     \<lparr>Events = None,
      Raw = Some \<lparr>ErrorRatioQuery = fst (test_plugin_Func
        [''service'' \<mapsto> ''test-svc'', ''slo'' \<mapsto> ''slo2'', ''objective'' \<mapsto> ''99.000000'']
        [''gk1'' \<mapsto> ''gv1''] Map.empty)\<rparr>\<rparr>"
    by (simp add: loader_defs fixture_defs sprintf_defs)
  from resolution_independent_checks [OF d l n0] resolution_independent_checks [OF d l n1]
    d l n1 rest
  show ?thesis by blast
qed

text \<open>A declaration with one source gives an SLI with one variant.\<close>

lemma body_one_variant:
  assumes "mapSpecToModel_body y spec s = Inr slo" and "signal_sources (v1_SLI s) = 1"
  shows "(Events (SLI slo) = None) \<noteq> (Raw (SLI slo) = None)"
proof (cases "v1_Plugin (v1_SLI s)")
  case None
  with assms(2) body_Events [OF assms(1)] body_Raw_no_plugin [OF assms(1) None]
  show ?thesis
    by (auto simp: signal_sources_def split: if_splits)
next
  case (Some pl)
  with assms(2) body_Events [OF assms(1)] body_Raw_plugin [OF assms(1) Some]
  show ?thesis
    by (auto simp: signal_sources_def split: if_splits)
qed

text \<open>
  C3: for every input accepted by \<^verbatim>\<open>LoadSpec\<close> in which each SLO declaration specifies
  exactly one signal-source variant, every resolved SLI in the output has exactly
  one of \<^verbatim>\<open>Events\<close>/\<^verbatim>\<open>Raw\<close> non-nil: never both, never neither.
\<close>

theorem one_source_one_variant:
  assumes "yaml_Unmarshal data = (spec, None)"
    and "LoadSpec y yaml_Unmarshal data = (Some g, None)"
    and "\<forall>s \<in> set (v1_SLOs spec). signal_sources (v1_SLI s) = 1"
  shows "\<forall>slo \<in> set (SLOs g). (Events (SLI slo) = None) \<noteq> (Raw (SLI slo) = None)"
proof
  fix slo
  assume "slo \<in> set (SLOs g)"
  then obtain i where i: "i < length (SLOs g)" and slo: "SLOs g ! i = slo"
    by (auto simp: in_set_conv_nth)
  from LoadSpec_success [OF assms(1,2)]
  have "map (mapSpecToModel_body y spec) (v1_SLOs spec) = map Inr (SLOs g)" by simp
  then have "length (v1_SLOs spec) = length (SLOs g)" by (metis length_map)
  with i have i': "i < length (v1_SLOs spec)" by simp
  then have one: "signal_sources (v1_SLI (v1_SLOs spec ! i)) = 1"
    using assms(3) by simp
  from LoadSpec_success_nth [OF assms(1,2) i'] slo
  have "mapSpecToModel_body y spec (v1_SLOs spec ! i) = Inr slo" by simp
  from body_one_variant [OF this one]
  show "(Events (SLI slo) = None) \<noteq> (Raw (SLI slo) = None)" .
qed

theorem one_source_one_variant_witness:
  "decodes_to correct_spec ''spec'' = (correct_spec, None) \<and>
   LoadSpec empty_loader (decodes_to correct_spec) ''spec'' = (Some correct_model, None) \<and>
   map (signal_sources \<circ> v1_SLI) (v1_SLOs correct_spec) = [1, 1] \<and>
   map (Events \<circ> SLI) (SLOs correct_model) =
     [Some \<lparr>ErrorQuery = ''test_expr_error_1'', TotalQuery = ''test_expr_total_1''\<rparr>, None] \<and>
   map (Raw \<circ> SLI) (SLOs correct_model) = [None, Some \<lparr>ErrorRatioQuery = ''test_expr_ratio_2''\<rparr>]"
proof -
  have d: "decodes_to correct_spec ''spec'' = (correct_spec, None)"
    by (simp add: decodes_to_def)
  have c: "map (signal_sources \<circ> v1_SLI) (v1_SLOs correct_spec) = [1, 1]"
    by (simp add: fixture_defs signal_sources_def)
  then have h: "\<forall>s \<in> set (v1_SLOs correct_spec). signal_sources (v1_SLI s) = 1"
    by (simp add: fixture_defs signal_sources_def)
  from one_source_one_variant [OF d LoadSpec_correct_spec h] d c LoadSpec_correct_spec
  show ?thesis by (simp add: correct_model_def)
qed

section \<open>Declarations the loader does not validate\<close>

lemma bodies_all_succeed:
  "\<forall>s \<in> set xs. \<exists>slo. mapSpecToModel_body y spec s = Inr slo \<Longrightarrow>
     \<exists>ys. map (mapSpecToModel_body y spec) xs = map Inr ys"
proof (induction xs)
  case Nil
  then show ?case by simp
next
  case (Cons x xs)
  then obtain slo ys where "mapSpecToModel_body y spec x = Inr slo"
    and "map (mapSpecToModel_body y spec) xs = map Inr ys" by auto
  then have "map (mapSpecToModel_body y spec) (x # xs) = map Inr (slo # ys)" by simp
  then show ?case by blast
qed

lemma LoadSpec_accepts_all:
  assumes "data \<noteq> []" and "yaml_Unmarshal data = (spec, None)"
    and "v1_Version spec = prometheusv1_Version" and "v1_SLOs spec \<noteq> []"
    and "\<forall>s \<in> set (v1_SLOs spec). \<exists>slo. mapSpecToModel_body y spec s = Inr slo"
  shows "\<exists>g. LoadSpec y yaml_Unmarshal data = (Some g, None)"
proof -
  from bodies_all_succeed [OF assms(5)]
  obtain ys where "map (mapSpecToModel_body y spec) (v1_SLOs spec) = map Inr ys" by blast
  from LoadSpec_accepts [where yaml_Unmarshal = yaml_Unmarshal and data = data, OF assms(1-4) this]
  show ?thesis by blast
qed

lemma body_no_source:
  assumes "signal_sources (v1_SLI s) = 0"
  shows "\<exists>slo. mapSpecToModel_body y spec s = Inr slo \<and> SLI slo = \<lparr>Events = None, Raw = None\<rparr>"
proof -
  from assms have e: "v1_Events (v1_SLI s) = None" and r: "v1_Raw (v1_SLI s) = None"
    and p: "v1_Plugin (v1_SLI s) = None"
    by (auto simp: signal_sources_def split: if_splits)
  have "SLI (setAlerts s (setRaw s (setEvents s (newSLO spec s)))) = \<lparr>Events = None, Raw = None\<rparr>"
    by (simp add: setAlerts_def setRaw_def setEvents_def newSLO_def Let_def e r)
  with body_no_plugin_result [OF p, of y spec] show ?thesis by simp
qed

text \<open>
  C9: for every SLO declaration in which none of the three signal-source variants
  (\<^verbatim>\<open>events\<close>, \<^verbatim>\<open>raw\<close>, \<^verbatim>\<open>plugin\<close>) is set, \<^verbatim>\<open>LoadSpec\<close> raises no validation error and
  produces an SLO whose SLI has both \<^verbatim>\<open>Events\<close> and \<^verbatim>\<open>Raw\<close> unset: a spec that passes
  the version and SLO-count checks, and whose declarations that do name a source
  resolve, is loaded, and each declaration without a source gives the empty SLI.
\<close>

theorem no_source_no_error:
  assumes "data \<noteq> []" and "yaml_Unmarshal data = (spec, None)"
    and "v1_Version spec = prometheusv1_Version" and "v1_SLOs spec \<noteq> []"
    and "\<forall>s \<in> set (v1_SLOs spec). signal_sources (v1_SLI s) \<noteq> 0 \<longrightarrow>
           (\<exists>slo. mapSpecToModel_body y spec s = Inr slo)"
  shows "\<exists>g. LoadSpec y yaml_Unmarshal data = (Some g, None) \<and>
           length (SLOs g) = length (v1_SLOs spec) \<and>
           (\<forall>i < length (v1_SLOs spec). signal_sources (v1_SLI (v1_SLOs spec ! i)) = 0 \<longrightarrow>
              SLI (SLOs g ! i) = \<lparr>Events = None, Raw = None\<rparr>)"
proof -
  have "\<forall>s \<in> set (v1_SLOs spec). \<exists>slo. mapSpecToModel_body y spec s = Inr slo"
    using assms(5) body_no_source by blast
  from LoadSpec_accepts_all [where yaml_Unmarshal = yaml_Unmarshal and data = data, OF assms(1-4) this]
  obtain g where g: "LoadSpec y yaml_Unmarshal data = (Some g, None)" by blast
  from LoadSpec_success [OF assms(2) g]
  have "map (mapSpecToModel_body y spec) (v1_SLOs spec) = map Inr (SLOs g)" by simp
  then have l: "length (SLOs g) = length (v1_SLOs spec)" by (metis length_map)
  have "SLI (SLOs g ! i) = \<lparr>Events = None, Raw = None\<rparr>"
    if "i < length (v1_SLOs spec)" and "signal_sources (v1_SLI (v1_SLOs spec ! i)) = 0" for i
    using LoadSpec_success_nth [OF assms(2) g that(1)] body_no_source [OF that(2), of y spec]
    by auto
  with g l show ?thesis by blast
qed

theorem no_source_no_error_witness:
  "''spec'' \<noteq> [] \<and>
   decodes_to no_source_spec ''spec'' = (no_source_spec, None) \<and>
   v1_Version no_source_spec = prometheusv1_Version \<and>
   v1_SLOs no_source_spec \<noteq> [] \<and>
   map (signal_sources \<circ> v1_SLI) (v1_SLOs no_source_spec) = [0, 1] \<and>
   LoadSpec empty_loader (decodes_to no_source_spec) ''spec'' =
     (Some \<lparr>SLOs = loaded (LoadSpec empty_loader (decodes_to no_source_spec) ''spec'')\<rparr>, None) \<and>
   SLI (loaded (LoadSpec empty_loader (decodes_to no_source_spec) ''spec'') ! 0) =
     \<lparr>Events = None, Raw = None\<rparr>"
proof -
  have a: "''spec'' \<noteq> []" by simp
  have d: "decodes_to no_source_spec ''spec'' = (no_source_spec, None)"
    by (simp add: decodes_to_def)
  have v: "v1_Version no_source_spec = prometheusv1_Version"
    by (simp add: fixture_defs prometheusv1_Version_def)
  have n: "v1_SLOs no_source_spec \<noteq> []"
    by (simp add: fixture_defs)
  have h: "\<forall>s \<in> set (v1_SLOs no_source_spec). signal_sources (v1_SLI s) \<noteq> 0 \<longrightarrow>
           (\<exists>slo. mapSpecToModel_body empty_loader no_source_spec s = Inr slo)"
    by (simp add: loader_defs fixture_defs signal_sources_def)
  have rest: "map (signal_sources \<circ> v1_SLI) (v1_SLOs no_source_spec) = [0, 1] \<and>
   LoadSpec empty_loader (decodes_to no_source_spec) ''spec'' =
     (Some \<lparr>SLOs = loaded (LoadSpec empty_loader (decodes_to no_source_spec) ''spec'')\<rparr>, None) \<and>
   SLI (loaded (LoadSpec empty_loader (decodes_to no_source_spec) ''spec'') ! 0) =
     \<lparr>Events = None, Raw = None\<rparr>"
    by (simp add: loader_defs fixture_defs signal_sources_def)
  from no_source_no_error [where yaml_Unmarshal = "decodes_to no_source_spec" and data = "''spec''",
      OF a d v n h] a d v n rest
  show ?thesis by blast
qed

text \<open>
  A declaration resolves when it names no plugin, or names a registered plugin that
  returns no error on the arguments the loader hands it.
\<close>

lemma body_resolves:
  assumes "\<forall>pl. v1_Plugin (v1_SLI s) = Some pl \<longrightarrow>
           (\<exists>plugin rawQuery. plugins y (v1_ID pl) = Some plugin \<and>
              Func plugin
                [''service'' \<mapsto> v1_Service spec, ''slo'' \<mapsto> v1_Name s,
                 ''objective'' \<mapsto> sprintf_f (v1_Objective s)]
                (v1_Labels spec) (v1_Options pl) = (rawQuery, None))"
  shows "\<exists>slo. mapSpecToModel_body y spec s = Inr slo"
proof (cases "v1_Plugin (v1_SLI s)")
  case None
  from body_no_plugin_result [OF None, of y spec] show ?thesis by simp
next
  case (Some pl)
  with assms obtain plugin rawQuery where "plugins y (v1_ID pl) = Some plugin"
    and "Func plugin (pluginMeta spec s) (v1_Labels spec) (v1_Options pl) = (rawQuery, None)"
    by (auto simp: pluginMeta_keys)
  with body_plugin_result [OF Some, of y spec] show ?thesis by simp
qed

text \<open>
  C10: \<^verbatim>\<open>LoadSpec\<close> performs no validation of the service field: an input whose
  \<^verbatim>\<open>service\<close> key is absent or empty (but otherwise valid: non-empty bytes that
  decode, the supported version, at least one SLO, and every plugin a declaration
  names registered and returning no error) is accepted, and every resulting SLO has
  \<^verbatim>\<open>Service\<close> equal to the empty string and \<^verbatim>\<open>ID\<close> equal to "-" followed by the SLO
  name.
\<close>

theorem empty_service_accepted:
  assumes "data \<noteq> []" and "yaml_Unmarshal data = (spec, None)"
    and "v1_Service spec = ''''"
    and "v1_Version spec = prometheusv1_Version" and "v1_SLOs spec \<noteq> []"
    and "\<forall>s \<in> set (v1_SLOs spec). \<forall>pl. v1_Plugin (v1_SLI s) = Some pl \<longrightarrow>
           (\<exists>plugin rawQuery. plugins y (v1_ID pl) = Some plugin \<and>
              Func plugin
                [''service'' \<mapsto> '''', ''slo'' \<mapsto> v1_Name s,
                 ''objective'' \<mapsto> sprintf_f (v1_Objective s)]
                (v1_Labels spec) (v1_Options pl) = (rawQuery, None))"
  shows "\<exists>g. LoadSpec y yaml_Unmarshal data = (Some g, None) \<and>
           length (SLOs g) = length (v1_SLOs spec) \<and>
           (\<forall>i < length (v1_SLOs spec).
              Service (SLOs g ! i) = '''' \<and> ID (SLOs g ! i) = ''-'' @ v1_Name (v1_SLOs spec ! i))"
proof -
  have "\<forall>s \<in> set (v1_SLOs spec). \<exists>slo. mapSpecToModel_body y spec s = Inr slo"
  proof
    fix s
    assume "s \<in> set (v1_SLOs spec)"
    with assms(6) have "\<forall>pl. v1_Plugin (v1_SLI s) = Some pl \<longrightarrow>
           (\<exists>plugin rawQuery. plugins y (v1_ID pl) = Some plugin \<and>
              Func plugin
                [''service'' \<mapsto> v1_Service spec, ''slo'' \<mapsto> v1_Name s,
                 ''objective'' \<mapsto> sprintf_f (v1_Objective s)]
                (v1_Labels spec) (v1_Options pl) = (rawQuery, None))"
      by (simp add: assms(3))
    then show "\<exists>slo. mapSpecToModel_body y spec s = Inr slo"
      by (rule body_resolves)
  qed
  from LoadSpec_accepts_all [where yaml_Unmarshal = yaml_Unmarshal and data = data,
      OF assms(1,2,4,5) this]
  obtain g where g: "LoadSpec y yaml_Unmarshal data = (Some g, None)" by blast
  from LoadSpec_success [OF assms(2) g]
  have "map (mapSpecToModel_body y spec) (v1_SLOs spec) = map Inr (SLOs g)" by simp
  then have l: "length (SLOs g) = length (v1_SLOs spec)" by (metis length_map)
  have "Service (SLOs g ! i) = '''' \<and> ID (SLOs g ! i) = ''-'' @ v1_Name (v1_SLOs spec ! i)"
    if "i < length (v1_SLOs spec)" for i
    using body_ID [OF LoadSpec_success_nth [OF assms(2) g that]] assms(3) by simp
  with g l show ?thesis by blast
qed

theorem empty_service_accepted_witness:
  "''spec'' \<noteq> [] \<and>
   decodes_to no_service_spec ''spec'' = (no_service_spec, None) \<and>
   v1_Service no_service_spec = '''' \<and>
   v1_Version no_service_spec = prometheusv1_Version \<and>
   v1_SLOs no_service_spec \<noteq> [] \<and>
   map (signal_sources \<circ> v1_SLI) (v1_SLOs no_service_spec) = [1, 1, 1] \<and>
   map (v1_Plugin \<circ> v1_SLI) (v1_SLOs no_service_spec) =
     [None, None,
      Some \<lparr>v1_ID = ''test_plugin'', v1_Options = [''k1'' \<mapsto> ''v1'', ''k2'' \<mapsto> ''true'']\<rparr>] \<and>
   map_option Func (plugins test_loader ''test_plugin'') = Some test_plugin_Func \<and>
   snd (test_plugin_Func
     [''service'' \<mapsto> '''', ''slo'' \<mapsto> ''slo3'', ''objective'' \<mapsto> sprintf_f (Finite False 99 0)]
     (v1_Labels no_service_spec) [''k1'' \<mapsto> ''v1'', ''k2'' \<mapsto> ''true'']) = None \<and>
   LoadSpec test_loader (decodes_to no_service_spec) ''spec'' =
     (Some \<lparr>SLOs = loaded (LoadSpec test_loader (decodes_to no_service_spec) ''spec'')\<rparr>, None) \<and>
   map Service (loaded (LoadSpec test_loader (decodes_to no_service_spec) ''spec'')) =
     ['''', '''', ''''] \<and>
   map ID (loaded (LoadSpec test_loader (decodes_to no_service_spec) ''spec'')) =
     [''-slo1'', ''-slo2'', ''-slo3'']"
proof -
  have a: "''spec'' \<noteq> []" by simp
  have d: "decodes_to no_service_spec ''spec'' = (no_service_spec, None)"
    by (simp add: decodes_to_def)
  have s: "v1_Service no_service_spec = ''''"
    by (simp add: fixture_defs)
  have v: "v1_Version no_service_spec = prometheusv1_Version"
    by (simp add: fixture_defs prometheusv1_Version_def)
  have n: "v1_SLOs no_service_spec \<noteq> []"
    by (simp add: fixture_defs)
  have h: "\<forall>s \<in> set (v1_SLOs no_service_spec). \<forall>pl. v1_Plugin (v1_SLI s) = Some pl \<longrightarrow>
           (\<exists>plugin rawQuery. plugins test_loader (v1_ID pl) = Some plugin \<and>
              Func plugin
                [''service'' \<mapsto> '''', ''slo'' \<mapsto> v1_Name s,
                 ''objective'' \<mapsto> sprintf_f (v1_Objective s)]
                (v1_Labels no_service_spec) (v1_Options pl) = (rawQuery, None))"
    by (simp add: fixture_defs NewYAMLSpecLoader_def)
  have rest: "map (signal_sources \<circ> v1_SLI) (v1_SLOs no_service_spec) = [1, 1, 1] \<and>
   map (v1_Plugin \<circ> v1_SLI) (v1_SLOs no_service_spec) =
     [None, None,
      Some \<lparr>v1_ID = ''test_plugin'', v1_Options = [''k1'' \<mapsto> ''v1'', ''k2'' \<mapsto> ''true'']\<rparr>] \<and>
   map_option Func (plugins test_loader ''test_plugin'') = Some test_plugin_Func \<and>
   snd (test_plugin_Func
     [''service'' \<mapsto> '''', ''slo'' \<mapsto> ''slo3'', ''objective'' \<mapsto> sprintf_f (Finite False 99 0)]
     (v1_Labels no_service_spec) [''k1'' \<mapsto> ''v1'', ''k2'' \<mapsto> ''true'']) = None \<and>
   LoadSpec test_loader (decodes_to no_service_spec) ''spec'' =
     (Some \<lparr>SLOs = loaded (LoadSpec test_loader (decodes_to no_service_spec) ''spec'')\<rparr>, None) \<and>
   map Service (loaded (LoadSpec test_loader (decodes_to no_service_spec) ''spec'')) =
     ['''', '''', ''''] \<and>
   map ID (loaded (LoadSpec test_loader (decodes_to no_service_spec) ''spec'')) =
     [''-slo1'', ''-slo2'', ''-slo3'']"
    by (simp add: loader_defs fixture_defs signal_sources_def)
  from empty_service_accepted [where yaml_Unmarshal = "decodes_to no_service_spec" and data = "''spec''",
      OF a d s v n h] a d s v n rest
  show ?thesis by blast
qed

section \<open>Failures\<close>

lemma LoadSpec_result_shape:
  "(fst (LoadSpec y yaml_Unmarshal data) = None) = (snd (LoadSpec y yaml_Unmarshal data) \<noteq> None)"
proof (cases "mapSpecToModel y (fst (yaml_Unmarshal data))")
  case (Pair m e)
  then have "(m = None) = (e \<noteq> None)"
    using loop_result_shape by (simp add: mapSpecToModel_def)
  with Pair show ?thesis
    by (auto simp: LoadSpec_def split: prod.splits option.splits)
qed

lemma LoadSpec_body_failure:
  assumes "data \<noteq> []" and "yaml_Unmarshal data = (spec, None)"
    and "v1_Version spec = prometheusv1_Version"
    and "v1_SLOs spec = pre @ s # post"
    and "\<forall>p \<in> set pre. \<exists>slo. mapSpecToModel_body y spec p = Inr slo"
    and "mapSpecToModel_body y spec s = Inl err"
  shows "LoadSpec y yaml_Unmarshal data = (None, Some (CouldNotMapToModel err))"
  using assms loop_failure_intro [OF assms(5,6), of post "[]"]
  by (simp add: LoadSpec_def mapSpecToModel_def)

text \<open>
  C6: \<^verbatim>\<open>LoadSpec\<close> is all-or-nothing.  It returns a group exactly when it returns no
  error, so no group comes with an error.  When the declarations before a
  plugin-using one resolve and that one names an unregistered plugin, the load
  returns the unknown-plugin error (wrapped by \<^verbatim>\<open>could not map to model\<close>); when
  its plugin is registered and fails, the load returns the plugin execution error
  wrapping the plugin's own; in both cases without a group.
\<close>

theorem all_or_nothing:
  "(fst (LoadSpec y yaml_Unmarshal data) = None) = (snd (LoadSpec y yaml_Unmarshal data) \<noteq> None) \<and>
   (data \<noteq> [] \<and> yaml_Unmarshal data = (spec, None) \<and>
    v1_Version spec = prometheusv1_Version \<and> v1_SLOs spec = pre @ s # post \<and>
    (\<forall>p \<in> set pre. \<exists>slo. mapSpecToModel_body y spec p = Inr slo) \<and>
    v1_Plugin (v1_SLI s) = Some pl \<longrightarrow>
      (plugins y (v1_ID pl) = None \<longrightarrow>
         LoadSpec y yaml_Unmarshal data =
           (None, Some (CouldNotMapToModel (UnknownPlugin (v1_ID pl))))) \<and>
      (\<forall>plugin rawQuery err.
         plugins y (v1_ID pl) = Some plugin \<and>
         Func plugin (pluginMeta spec s) (v1_Labels spec) (v1_Options pl) = (rawQuery, Some err) \<longrightarrow>
         LoadSpec y yaml_Unmarshal data =
           (None, Some (CouldNotMapToModel (PluginExecutionError (v1_ID pl) err)))))"
proof (intro conjI impI allI)
  show "(fst (LoadSpec y yaml_Unmarshal data) = None) =
        (snd (LoadSpec y yaml_Unmarshal data) \<noteq> None)"
    by (rule LoadSpec_result_shape)
next
  assume h: "data \<noteq> [] \<and> yaml_Unmarshal data = (spec, None) \<and>
    v1_Version spec = prometheusv1_Version \<and> v1_SLOs spec = pre @ s # post \<and>
    (\<forall>p \<in> set pre. \<exists>slo. mapSpecToModel_body y spec p = Inr slo) \<and>
    v1_Plugin (v1_SLI s) = Some pl"
    and u: "plugins y (v1_ID pl) = None"
  from h have p: "v1_Plugin (v1_SLI s) = Some pl" by simp
  have "mapSpecToModel_body y spec s = Inl (UnknownPlugin (v1_ID pl))"
    by (simp add: body_plugin_result [OF p] u)
  with h show "LoadSpec y yaml_Unmarshal data =
      (None, Some (CouldNotMapToModel (UnknownPlugin (v1_ID pl))))"
    using LoadSpec_body_failure [where yaml_Unmarshal = yaml_Unmarshal and data = data]
    by blast
next
  fix plugin rawQuery err
  assume h: "data \<noteq> [] \<and> yaml_Unmarshal data = (spec, None) \<and>
    v1_Version spec = prometheusv1_Version \<and> v1_SLOs spec = pre @ s # post \<and>
    (\<forall>p \<in> set pre. \<exists>slo. mapSpecToModel_body y spec p = Inr slo) \<and>
    v1_Plugin (v1_SLI s) = Some pl"
    and f: "plugins y (v1_ID pl) = Some plugin \<and>
         Func plugin (pluginMeta spec s) (v1_Labels spec) (v1_Options pl) = (rawQuery, Some err)"
  from h have p: "v1_Plugin (v1_SLI s) = Some pl" by simp
  have "mapSpecToModel_body y spec s = Inl (PluginExecutionError (v1_ID pl) err)"
    by (simp add: body_plugin_result [OF p] f)
  with h show "LoadSpec y yaml_Unmarshal data =
      (None, Some (CouldNotMapToModel (PluginExecutionError (v1_ID pl) err)))"
    using LoadSpec_body_failure [where yaml_Unmarshal = yaml_Unmarshal and data = data]
    by blast
qed

theorem all_or_nothing_witness:
  "''spec'' \<noteq> [] \<and>
   decodes_to late_plugin_spec ''spec'' = (late_plugin_spec, None) \<and>
   v1_Version late_plugin_spec = prometheusv1_Version \<and>
   v1_SLOs late_plugin_spec =
     [test_SLO ''slo1'' raw_SLI disabled_Alerting] @
     test_SLO ''slo2'' (plugin_SLI ''test_plugin'') disabled_Alerting # [] \<and>
   map (isl \<circ> mapSpecToModel_body empty_loader late_plugin_spec) (v1_SLOs late_plugin_spec) =
     [False, True] \<and>
   map (isl \<circ> mapSpecToModel_body failing_loader late_plugin_spec) (v1_SLOs late_plugin_spec) =
     [False, True] \<and>
   v1_Plugin (v1_SLI (test_SLO ''slo2'' (plugin_SLI ''test_plugin'') disabled_Alerting)) =
     Some \<lparr>v1_ID = ''test_plugin'', v1_Options = [''k1'' \<mapsto> ''v1'', ''k2'' \<mapsto> ''true'']\<rparr> \<and>
   plugins empty_loader ''test_plugin'' = None \<and>
   LoadSpec empty_loader (decodes_to late_plugin_spec) ''spec'' =
     (None, Some (CouldNotMapToModel (UnknownPlugin ''test_plugin''))) \<and>
   map_option Func (plugins failing_loader ''test_plugin'') = Some failing_plugin_Func \<and>
   LoadSpec failing_loader (decodes_to late_plugin_spec) ''spec'' =
     (None, Some (CouldNotMapToModel
        (PluginExecutionError ''test_plugin'' (External ''something''))))"
proof -
  have hyps: "''spec'' \<noteq> [] \<and>
   decodes_to late_plugin_spec ''spec'' = (late_plugin_spec, None) \<and>
   v1_Version late_plugin_spec = prometheusv1_Version \<and>
   v1_SLOs late_plugin_spec =
     [test_SLO ''slo1'' raw_SLI disabled_Alerting] @
     test_SLO ''slo2'' (plugin_SLI ''test_plugin'') disabled_Alerting # [] \<and>
   map (isl \<circ> mapSpecToModel_body empty_loader late_plugin_spec) (v1_SLOs late_plugin_spec) =
     [False, True] \<and>
   map (isl \<circ> mapSpecToModel_body failing_loader late_plugin_spec) (v1_SLOs late_plugin_spec) =
     [False, True] \<and>
   v1_Plugin (v1_SLI (test_SLO ''slo2'' (plugin_SLI ''test_plugin'') disabled_Alerting)) =
     Some \<lparr>v1_ID = ''test_plugin'', v1_Options = [''k1'' \<mapsto> ''v1'', ''k2'' \<mapsto> ''true'']\<rparr> \<and>
   plugins empty_loader ''test_plugin'' = None \<and>
   map_option Func (plugins failing_loader ''test_plugin'') = Some failing_plugin_Func"
    by (simp add: loader_defs fixture_defs sprintf_defs)
  have pre_e: "\<forall>p \<in> set [test_SLO ''slo1'' raw_SLI disabled_Alerting].
      \<exists>slo. mapSpecToModel_body empty_loader late_plugin_spec p = Inr slo"
    by (simp add: loader_defs fixture_defs)
  have pre_f: "\<forall>p \<in> set [test_SLO ''slo1'' raw_SLI disabled_Alerting].
      \<exists>slo. mapSpecToModel_body failing_loader late_plugin_spec p = Inr slo"
    by (simp add: loader_defs fixture_defs)
  have fl: "plugins failing_loader ''test_plugin'' =
      Some \<lparr>PluginID = ''test_plugin'', Func = failing_plugin_Func\<rparr> \<and>
    Func \<lparr>PluginID = ''test_plugin'', Func = failing_plugin_Func\<rparr>
      (pluginMeta late_plugin_spec (test_SLO ''slo2'' (plugin_SLI ''test_plugin'') disabled_Alerting))
      (v1_Labels late_plugin_spec) [''k1'' \<mapsto> ''v1'', ''k2'' \<mapsto> ''true''] =
      ('''', Some (External ''something''))"
    by (simp add: failing_loader_def NewYAMLSpecLoader_def failing_plugin_Func_def)
  from all_or_nothing [of empty_loader "decodes_to late_plugin_spec" "''spec''" late_plugin_spec
      "[test_SLO ''slo1'' raw_SLI disabled_Alerting]"
      "test_SLO ''slo2'' (plugin_SLI ''test_plugin'') disabled_Alerting" "[]"
      "\<lparr>v1_ID = ''test_plugin'', v1_Options = [''k1'' \<mapsto> ''v1'', ''k2'' \<mapsto> ''true'']\<rparr>"]
    hyps pre_e
  have e: "LoadSpec empty_loader (decodes_to late_plugin_spec) ''spec'' =
     (None, Some (CouldNotMapToModel (UnknownPlugin ''test_plugin'')))"
    by simp
  from all_or_nothing [of failing_loader "decodes_to late_plugin_spec" "''spec''" late_plugin_spec
      "[test_SLO ''slo1'' raw_SLI disabled_Alerting]"
      "test_SLO ''slo2'' (plugin_SLI ''test_plugin'') disabled_Alerting" "[]"
      "\<lparr>v1_ID = ''test_plugin'', v1_Options = [''k1'' \<mapsto> ''v1'', ''k2'' \<mapsto> ''true'']\<rparr>"]
    hyps pre_f fl
  have f: "LoadSpec failing_loader (decodes_to late_plugin_spec) ''spec'' =
     (None, Some (CouldNotMapToModel
        (PluginExecutionError ''test_plugin'' (External ''something''))))"
    by (simp del: set_simps)
  from hyps e f show ?thesis by blast
qed

text \<open>
  C5: \<^verbatim>\<open>LoadSpec\<close> applies its four validation gates in order, each short-circuiting:
  zero-length input fails with the empty-spec error, whatever the decoder would say;
  input the decoder rejects fails with the malformed-spec error wrapping the
  decoder's (so does the input \<^verbatim>\<open>:\<close> when the decoder rejects it), whatever was
  decoded; a version other than \<^verbatim>\<open>prometheus/v1\<close>, the empty one of an absent key
  included, fails with the unsupported-version error, whatever the SLO list; an
  empty SLO list fails with the no-SLOs error.
\<close>

theorem validation_gates:
  "(length data = 0 \<longrightarrow> LoadSpec y yaml_Unmarshal data = (None, Some EmptySpec)) \<and>
   (length data \<noteq> 0 \<and> yaml_Unmarshal data = (s, Some err) \<longrightarrow>
      LoadSpec y yaml_Unmarshal data = (None, Some (MalformedSpec err))) \<and>
   (yaml_Unmarshal '':'' = (s, Some err) \<longrightarrow>
      LoadSpec y yaml_Unmarshal '':'' = (None, Some (MalformedSpec err))) \<and>
   (length data \<noteq> 0 \<and> yaml_Unmarshal data = (s, None) \<and>
    (v1_Version s \<noteq> ''prometheus/v1'' \<or> v1_Version s = '''') \<longrightarrow>
      LoadSpec y yaml_Unmarshal data = (None, Some (UnsupportedVersion ''prometheus/v1''))) \<and>
   (length data \<noteq> 0 \<and> yaml_Unmarshal data = (s, None) \<and>
    v1_Version s = ''prometheus/v1'' \<and> v1_SLOs s = [] \<longrightarrow>
      LoadSpec y yaml_Unmarshal data = (None, Some NoSLOs))"
  by (auto simp: LoadSpec_def prometheusv1_Version_def)

theorem validation_gates_witness:
  "length '''' = 0 \<and>
   snd (decodes_to correct_spec '''') = None \<and>
   LoadSpec empty_loader (decodes_to correct_spec) '''' = (None, Some EmptySpec) \<and>
   length '':'' \<noteq> 0 \<and>
   rejects ''yaml: did not find expected key'' '':'' =
     (zero_Spec, Some (External ''yaml: did not find expected key'')) \<and>
   LoadSpec empty_loader (rejects ''yaml: did not find expected key'') '':'' =
     (None, Some (MalformedSpec (External ''yaml: did not find expected key''))) \<and>
   length ''spec'' \<noteq> 0 \<and>
   decodes_to v2_spec ''spec'' = (v2_spec, None) \<and>
   v1_Version v2_spec \<noteq> ''prometheus/v1'' \<and>
   v1_SLOs v2_spec = [] \<and>
   LoadSpec empty_loader (decodes_to v2_spec) ''spec'' =
     (None, Some (UnsupportedVersion ''prometheus/v1'')) \<and>
   decodes_to zero_Spec ''spec'' = (zero_Spec, None) \<and>
   v1_Version zero_Spec = '''' \<and>
   LoadSpec empty_loader (decodes_to zero_Spec) ''spec'' =
     (None, Some (UnsupportedVersion ''prometheus/v1'')) \<and>
   decodes_to no_slos_spec ''spec'' = (no_slos_spec, None) \<and>
   v1_Version no_slos_spec = ''prometheus/v1'' \<and>
   v1_SLOs no_slos_spec = [] \<and>
   LoadSpec empty_loader (decodes_to no_slos_spec) ''spec'' = (None, Some NoSLOs)"
proof -
  have hyps: "length '''' = 0 \<and>
   snd (decodes_to correct_spec '''') = None \<and>
   length '':'' \<noteq> 0 \<and>
   rejects ''yaml: did not find expected key'' '':'' =
     (zero_Spec, Some (External ''yaml: did not find expected key'')) \<and>
   length ''spec'' \<noteq> 0 \<and>
   decodes_to v2_spec ''spec'' = (v2_spec, None) \<and>
   v1_Version v2_spec \<noteq> ''prometheus/v1'' \<and>
   v1_SLOs v2_spec = [] \<and>
   decodes_to zero_Spec ''spec'' = (zero_Spec, None) \<and>
   v1_Version zero_Spec = '''' \<and>
   decodes_to no_slos_spec ''spec'' = (no_slos_spec, None) \<and>
   v1_Version no_slos_spec = ''prometheus/v1'' \<and>
   v1_SLOs no_slos_spec = []"
    by (simp add: fixture_defs)
  from validation_gates [of "''''" empty_loader "decodes_to correct_spec"] hyps
  have g1: "LoadSpec empty_loader (decodes_to correct_spec) '''' = (None, Some EmptySpec)"
    by simp
  from validation_gates [of "'':''" empty_loader "rejects ''yaml: did not find expected key''"
      zero_Spec "External ''yaml: did not find expected key''"] hyps
  have g2: "LoadSpec empty_loader (rejects ''yaml: did not find expected key'') '':'' =
     (None, Some (MalformedSpec (External ''yaml: did not find expected key'')))"
    by simp
  from validation_gates [of "''spec''" empty_loader "decodes_to v2_spec" v2_spec] hyps
  have g3: "LoadSpec empty_loader (decodes_to v2_spec) ''spec'' =
     (None, Some (UnsupportedVersion ''prometheus/v1''))"
    by simp
  from validation_gates [of "''spec''" empty_loader "decodes_to zero_Spec" zero_Spec] hyps
  have g3': "LoadSpec empty_loader (decodes_to zero_Spec) ''spec'' =
     (None, Some (UnsupportedVersion ''prometheus/v1''))"
    by simp
  from validation_gates [of "''spec''" empty_loader "decodes_to no_slos_spec" no_slos_spec] hyps
  have g4: "LoadSpec empty_loader (decodes_to no_slos_spec) ''spec'' = (None, Some NoSLOs)"
    by simp
  from hyps g1 g2 g3 g3' g4 show ?thesis by simp
qed

section \<open>Plugin invocation\<close>

text \<open>
  What \<^verbatim>\<open>%f\<close> prints for a finite objective: a sign, the digits of the integer part
  without a leading zero, a point, six digits; read back as a number of millionths,
  the digits are the objective rounded to the nearest, ties to even.
\<close>

lemma digit_decimal: "digit n \<in> set ''0123456789''"
  unfolding digit_def by (rule nth_mem) simp

lemma digit_value_digit: "digit_value (digit n) = n mod 10"
proof -
  define d where "d = n mod 10"
  have "d < 10" by (simp add: d_def)
  then consider "d = 0" | "d = 1" | "d = 2" | "d = 3" | "d = 4" | "d = 5" | "d = 6" | "d = 7"
    | "d = 8" | "d = 9" by atomize_elim arith
  then have "digit_value (''0123456789'' ! d) = d"
    by cases (simp_all add: digit_value_def)
  then show ?thesis by (simp add: digit_def d_def)
qed

lemma digit_zero: "digit n = CHR ''0'' \<Longrightarrow> n mod 10 = 0"
  using digit_value_digit [of n] by (simp add: digit_value_def)

lemma itoa_small: "n < 10 \<Longrightarrow> itoa n = [digit n]"
  by (subst itoa.simps) simp

lemma itoa_large: "\<not> n < 10 \<Longrightarrow> itoa n = itoa (n div 10) @ [digit n]"
  by (subst itoa.simps) simp

lemma itoa_nonempty: "itoa n \<noteq> []"
  by (subst itoa.simps) simp

lemma itoa_decimal: "set (itoa n) \<subseteq> set ''0123456789''"
proof (induction n rule: itoa.induct)
  case (1 n)
  show ?case
  proof (cases "n < 10")
    case True
    with digit_decimal [of n] show ?thesis by (simp add: itoa_small)
  next
    case False
    with 1 [OF False] digit_decimal [of n] show ?thesis by (simp add: itoa_large)
  qed
qed

lemma itoa_no_leading_zero: "0 < n \<Longrightarrow> hd (itoa n) \<noteq> CHR ''0''"
proof (induction n rule: itoa.induct)
  case (1 n)
  show ?case
  proof (cases "n < 10")
    case True
    with 1(2) digit_zero [of n] show ?thesis by (auto simp: itoa_small)
  next
    case False
    then have "0 < n div 10" by simp
    with False 1(1) [OF False] itoa_nonempty [of "n div 10"] show ?thesis
      by (simp add: itoa_large)
  qed
qed

lemma itoa_canonical: "hd (itoa n) = CHR ''0'' \<longrightarrow> itoa n = ''0''"
proof (cases "n = 0")
  case True
  then show ?thesis by (simp add: itoa_small digit_def)
next
  case False
  with itoa_no_leading_zero [of n] show ?thesis by simp
qed

lemma atoi_snoc: "atoi (s @ [c]) = 10 * atoi s + digit_value c"
  by (simp add: atoi_def)

lemma atoi_itoa: "atoi (itoa n) = n"
proof (induction n rule: itoa.induct)
  case (1 n)
  show ?case
  proof (cases "n < 10")
    case True
    then show ?thesis by (simp add: itoa_small atoi_def digit_value_digit)
  next
    case False
    with 1 [OF False] show ?thesis by (simp add: itoa_large atoi_snoc digit_value_digit)
  qed
qed

lemma div10_step: "10 * (x div (10 * b)) + x div b mod 10 = (x div b :: nat)"
proof -
  have "x div (10 * b) = x div b div 10"
    by (simp add: div_mult2_eq mult.commute)
  then show ?thesis by simp
qed

lemma atoi_frac6:
  assumes "n < 10 ^ 6"
  shows "atoi (frac6 n) = n"
proof -
  from assms have a5: "n div 100000 mod 10 = n div 100000" by simp
  have a4: "10 * (n div 100000) + n div 10000 mod 10 = n div 10000"
    using div10_step [of n 10000] by simp
  have a3: "10 * (n div 10000) + n div 1000 mod 10 = n div 1000"
    using div10_step [of n 1000] by simp
  have a2: "10 * (n div 1000) + n div 100 mod 10 = n div 100"
    using div10_step [of n 100] by simp
  have a1: "10 * (n div 100) + n div 10 mod 10 = n div 10"
    using div10_step [of n 10] by simp
  have a0: "10 * (n div 10) + n mod 10 = n" by simp
  show ?thesis
    by (simp only: atoi_def frac6_def foldl.simps digit_value_digit mult_0_right add_0
        a5 a4 a3 a2 a1 a0)
qed

lemma frac6_decimal: "length (frac6 n) = 6 \<and> set (frac6 n) \<subseteq> set ''0123456789''"
  using digit_decimal [of "n div 100000"] digit_decimal [of "n div 10000"]
    digit_decimal [of "n div 1000"] digit_decimal [of "n div 100"]
    digit_decimal [of "n div 10"] digit_decimal [of n]
  by (simp add: frac6_def)

lemma round_half_even_near:
  assumes "0 < d"
  shows "2 * \<bar>int (round_half_even n d) * int d - int n\<bar> \<le> int d \<and>
         (2 * \<bar>int (round_half_even n d) * int d - int n\<bar> = int d \<longrightarrow>
            even (round_half_even n d))"
proof -
  define q r where "q = n div d" and "r = n mod d"
  have n: "int n = int q * int d + int r"
    unfolding q_def r_def by (metis div_mult_mod_eq of_nat_add of_nat_mult)
  have r: "r < d" unfolding r_def using assms by simp
  show ?thesis
  proof (cases "d < 2 * r \<or> (2 * r = d \<and> odd q)")
    case True
    then have e: "round_half_even n d = q + 1"
      by (simp add: round_half_even_def q_def r_def Let_def)
    have "int (q + 1) * int d - int n = int d - int r"
      by (simp add: n algebra_simps)
    with True r show ?thesis unfolding e by auto
  next
    case False
    then have e: "round_half_even n d = q"
      by (simp add: round_half_even_def q_def r_def Let_def)
    have "int q * int d - int n = - int r"
      by (simp add: n)
    with False r show ?thesis unfolding e by auto
  qed
qed

lemma sprintf_f_Finite_value:
  "\<exists>ip fp. sprintf_f (Finite neg m k) = (if neg then ''-'' else '''') @ ip @ ''.'' @ fp \<and>
     ip \<noteq> [] \<and> set ip \<subseteq> set ''0123456789'' \<and> (hd ip = CHR ''0'' \<longrightarrow> ip = ''0'') \<and>
     length fp = 6 \<and> set fp \<subseteq> set ''0123456789'' \<and>
     2 * \<bar>int (atoi ip * 10 ^ 6 + atoi fp) * 2 ^ k - int m * 10 ^ 6\<bar> \<le> 2 ^ k \<and>
     (2 * \<bar>int (atoi ip * 10 ^ 6 + atoi fp) * 2 ^ k - int m * 10 ^ 6\<bar> = 2 ^ k \<longrightarrow>
        even (atoi ip * 10 ^ 6 + atoi fp))"
proof -
  define scaled where "scaled = round_half_even (m * 10 ^ 6) (2 ^ k)"
  define ip where "ip = itoa (scaled div 10 ^ 6)"
  define fp where "fp = frac6 (scaled mod 10 ^ 6)"
  have s: "sprintf_f (Finite neg m k) = (if neg then ''-'' else '''') @ ip @ ''.'' @ fp"
    by (simp add: scaled_def ip_def fp_def Let_def)
  have "atoi fp = scaled mod 10 ^ 6"
    unfolding fp_def by (rule atoi_frac6) simp
  then have v: "atoi ip * 10 ^ 6 + atoi fp = scaled"
    by (simp add: ip_def atoi_itoa)
  from round_half_even_near [of "2 ^ k" "m * 10 ^ 6"]
  have rr: "2 * \<bar>int scaled * 2 ^ k - int m * 10 ^ 6\<bar> \<le> 2 ^ k \<and>
     (2 * \<bar>int scaled * 2 ^ k - int m * 10 ^ 6\<bar> = 2 ^ k \<longrightarrow> even scaled)"
    by (simp add: scaled_def)
  have r: "2 * \<bar>int (atoi ip * 10 ^ 6 + atoi fp) * 2 ^ k - int m * 10 ^ 6\<bar> \<le> 2 ^ k \<and>
     (2 * \<bar>int (atoi ip * 10 ^ 6 + atoi fp) * 2 ^ k - int m * 10 ^ 6\<bar> = 2 ^ k \<longrightarrow>
        even (atoi ip * 10 ^ 6 + atoi fp))"
    unfolding v by (rule rr)
  have i: "ip \<noteq> [] \<and> set ip \<subseteq> set ''0123456789'' \<and> (hd ip = CHR ''0'' \<longrightarrow> ip = ''0'')"
    unfolding ip_def using itoa_nonempty itoa_decimal itoa_canonical by blast
  have f: "length fp = 6 \<and> set fp \<subseteq> set ''0123456789''"
    unfolding fp_def by (rule frac6_decimal)
  from s i f r show ?thesis by blast
qed

lemma round_half_even_exact: "0 < d \<Longrightarrow> round_half_even (n * d) d = n"
  by (simp add: round_half_even_def)

lemma sprintf_f_99: "sprintf_f (Finite False (99 * 2 ^ k) k) = ''99.000000''"
proof -
  have "99 * 2 ^ k * 10 ^ 6 = (99000000::nat) * 2 ^ k" by simp
  then have "round_half_even (99 * 2 ^ k * 10 ^ 6) (2 ^ k) = 99000000"
    using round_half_even_exact [of "2 ^ k" 99000000] by simp
  then show ?thesis
    by (simp add: Let_def itoa.simps frac6_def digit_def)
qed

text \<open>
  C4, as the spec states it, fails: the loader does not validate the objective, and
  for an objective that is not a number (YAML \<^verbatim>\<open>.nan\<close>) \<^verbatim>\<open>%f\<close> prints \<^verbatim>\<open>NaN\<close>, with no
  decimal point and no digits; the load succeeds and the plugin is handed that
  string.
\<close>

theorem six_digits_counterexample:
  "v1_Objective (v1_SLOs nan_plugin_spec ! 0) = NaN \<and>
   pluginMeta nan_plugin_spec (v1_SLOs nan_plugin_spec ! 0) ''objective'' = Some ''NaN'' \<and>
   snd (LoadSpec test_loader (decodes_to nan_plugin_spec) ''spec'') = None \<and>
   map_option (map (Raw \<circ> SLI) \<circ> SLOs)
     (fst (LoadSpec test_loader (decodes_to nan_plugin_spec) ''spec'')) =
   Some [Some \<lparr>ErrorRatioQuery =
     ''plugin_raw_expr{service='' @ [CHR 0x22] @ ''test-svc'' @ [CHR 0x22] @
     '',slo='' @ [CHR 0x22] @ ''slo-test'' @ [CHR 0x22] @
     '',objective='' @ [CHR 0x22] @ ''NaN'' @ [CHR 0x22] @
     '',gk1='' @ [CHR 0x22] @ ''gv1'' @ [CHR 0x22] @
     '',k1='' @ [CHR 0x22] @ ''v1'' @ [CHR 0x22] @
     '',k2='' @ [CHR 0x22] @ ''true'' @ [CHR 0x22] @ ''}''\<rparr>]"
  by (simp add: loader_defs fixture_defs)

text \<open>
  C4, amended: for every SLO declaration using the \<^verbatim>\<open>plugin\<close> variant, in a load that
  succeeds, the plugin is registered and was applied to a metadata mapping holding
  exactly the service name, the SLO name and the objective as \<^verbatim>\<open>%f\<close> prints it,
  together with the top-level group labels (not the merged per-SLO labels) and the
  declared options; the string it returned is \<^verbatim>\<open>SLI.Raw.ErrorRatioQuery\<close>.  For a
  finite objective \<^verbatim>\<open>%f\<close> prints a sign, the integer part and six digits after the
  decimal point, which denote the objective rounded to the nearest millionth, ties
  to even (the objective 99 gives \<^verbatim>\<open>99.000000\<close>); for an objective that is not a
  number or is infinite it prints \<^verbatim>\<open>NaN\<close>, \<^verbatim>\<open>+Inf\<close> or \<^verbatim>\<open>-Inf\<close>.
\<close>

theorem plugin_invocation:
  assumes "yaml_Unmarshal data = (spec, None)"
    and "LoadSpec y yaml_Unmarshal data = (Some g, None)"
    and "i < length (v1_SLOs spec)"
    and "v1_Plugin (v1_SLI (v1_SLOs spec ! i)) = Some pl"
  shows "(\<exists>plugin rawQuery.
            plugins y (v1_ID pl) = Some plugin \<and>
            Func plugin
              [''service'' \<mapsto> v1_Service spec,
               ''slo'' \<mapsto> v1_Name (v1_SLOs spec ! i),
               ''objective'' \<mapsto> sprintf_f (v1_Objective (v1_SLOs spec ! i))]
              (v1_Labels spec) (v1_Options pl) = (rawQuery, None) \<and>
            Raw (SLI (SLOs g ! i)) = Some \<lparr>ErrorRatioQuery = rawQuery\<rparr>) \<and>
         (\<forall>neg m k. v1_Objective (v1_SLOs spec ! i) = Finite neg m k \<longrightarrow>
            (\<exists>ip fp. sprintf_f (v1_Objective (v1_SLOs spec ! i)) =
                       (if neg then ''-'' else '''') @ ip @ ''.'' @ fp \<and>
                     ip \<noteq> [] \<and> set ip \<subseteq> set ''0123456789'' \<and>
                     (hd ip = CHR ''0'' \<longrightarrow> ip = ''0'') \<and>
                     length fp = 6 \<and> set fp \<subseteq> set ''0123456789'' \<and>
                     2 * \<bar>int (atoi ip * 10 ^ 6 + atoi fp) * 2 ^ k - int m * 10 ^ 6\<bar> \<le> 2 ^ k \<and>
                     (2 * \<bar>int (atoi ip * 10 ^ 6 + atoi fp) * 2 ^ k - int m * 10 ^ 6\<bar> = 2 ^ k \<longrightarrow>
                        even (atoi ip * 10 ^ 6 + atoi fp)))) \<and>
         (\<forall>k. v1_Objective (v1_SLOs spec ! i) = Finite False (99 * 2 ^ k) k \<longrightarrow>
            sprintf_f (v1_Objective (v1_SLOs spec ! i)) = ''99.000000'') \<and>
         (v1_Objective (v1_SLOs spec ! i) = NaN \<longrightarrow>
            sprintf_f (v1_Objective (v1_SLOs spec ! i)) = ''NaN'') \<and>
         (v1_Objective (v1_SLOs spec ! i) = Inf False \<longrightarrow>
            sprintf_f (v1_Objective (v1_SLOs spec ! i)) = ''+Inf'') \<and>
         (v1_Objective (v1_SLOs spec ! i) = Inf True \<longrightarrow>
            sprintf_f (v1_Objective (v1_SLOs spec ! i)) = ''-Inf'')"
proof (intro conjI allI impI)
  from body_Raw_plugin [OF LoadSpec_success_nth [OF assms(1,2,3)] assms(4)]
  show "\<exists>plugin rawQuery.
            plugins y (v1_ID pl) = Some plugin \<and>
            Func plugin
              [''service'' \<mapsto> v1_Service spec,
               ''slo'' \<mapsto> v1_Name (v1_SLOs spec ! i),
               ''objective'' \<mapsto> sprintf_f (v1_Objective (v1_SLOs spec ! i))]
              (v1_Labels spec) (v1_Options pl) = (rawQuery, None) \<and>
            Raw (SLI (SLOs g ! i)) = Some \<lparr>ErrorRatioQuery = rawQuery\<rparr>"
    by (simp only: pluginMeta_keys)
next
  fix neg m k
  assume "v1_Objective (v1_SLOs spec ! i) = Finite neg m k"
  with sprintf_f_Finite_value [of neg m k]
  show "\<exists>ip fp. sprintf_f (v1_Objective (v1_SLOs spec ! i)) =
                       (if neg then ''-'' else '''') @ ip @ ''.'' @ fp \<and>
                     ip \<noteq> [] \<and> set ip \<subseteq> set ''0123456789'' \<and>
                     (hd ip = CHR ''0'' \<longrightarrow> ip = ''0'') \<and>
                     length fp = 6 \<and> set fp \<subseteq> set ''0123456789'' \<and>
                     2 * \<bar>int (atoi ip * 10 ^ 6 + atoi fp) * 2 ^ k - int m * 10 ^ 6\<bar> \<le> 2 ^ k \<and>
                     (2 * \<bar>int (atoi ip * 10 ^ 6 + atoi fp) * 2 ^ k - int m * 10 ^ 6\<bar> = 2 ^ k \<longrightarrow>
                        even (atoi ip * 10 ^ 6 + atoi fp))"
    by (simp only:)
next
  fix k
  assume "v1_Objective (v1_SLOs spec ! i) = Finite False (99 * 2 ^ k) k"
  then show "sprintf_f (v1_Objective (v1_SLOs spec ! i)) = ''99.000000''"
    by (simp only: sprintf_f_99)
next
  assume "v1_Objective (v1_SLOs spec ! i) = NaN"
  then show "sprintf_f (v1_Objective (v1_SLOs spec ! i)) = ''NaN''" by simp
next
  assume "v1_Objective (v1_SLOs spec ! i) = Inf False"
  then show "sprintf_f (v1_Objective (v1_SLOs spec ! i)) = ''+Inf''" by simp
next
  assume "v1_Objective (v1_SLOs spec ! i) = Inf True"
  then show "sprintf_f (v1_Objective (v1_SLOs spec ! i)) = ''-Inf''" by simp
qed

theorem plugin_invocation_witness:
  "decodes_to labelled_plugin_spec ''spec'' = (labelled_plugin_spec, None) \<and>
   LoadSpec test_loader (decodes_to labelled_plugin_spec) ''spec'' =
     (Some \<lparr>SLOs = loaded (LoadSpec test_loader (decodes_to labelled_plugin_spec) ''spec'')\<rparr>, None) \<and>
   0 < length (v1_SLOs labelled_plugin_spec) \<and>
   v1_Plugin (v1_SLI (v1_SLOs labelled_plugin_spec ! 0)) =
     Some \<lparr>v1_ID = ''test_plugin'', v1_Options = [''k1'' \<mapsto> ''v1'', ''k2'' \<mapsto> ''true'']\<rparr> \<and>
   v1_Objective (v1_SLOs labelled_plugin_spec ! 0) = Finite False (99 * 2 ^ 0) 0 \<and>
   Labels (loaded (LoadSpec test_loader (decodes_to labelled_plugin_spec) ''spec'') ! 0) ''gk1'' =
     Some ''slo-level'' \<and>
   Raw (SLI (loaded (LoadSpec test_loader (decodes_to labelled_plugin_spec) ''spec'') ! 0)) =
     Raw (SLI (SLOs plugin_model ! 0)) \<and>
   decodes_to nan_plugin_spec ''spec'' = (nan_plugin_spec, None) \<and>
   LoadSpec test_loader (decodes_to nan_plugin_spec) ''spec'' =
     (Some \<lparr>SLOs = loaded (LoadSpec test_loader (decodes_to nan_plugin_spec) ''spec'')\<rparr>, None) \<and>
   0 < length (v1_SLOs nan_plugin_spec) \<and>
   v1_Plugin (v1_SLI (v1_SLOs nan_plugin_spec ! 0)) =
     Some \<lparr>v1_ID = ''test_plugin'', v1_Options = [''k1'' \<mapsto> ''v1'', ''k2'' \<mapsto> ''true'']\<rparr> \<and>
   v1_Objective (v1_SLOs nan_plugin_spec ! 0) = NaN \<and>
   sprintf_f (v1_Objective (v1_SLOs nan_plugin_spec ! 0)) = ''NaN''"
proof -
  have d: "decodes_to labelled_plugin_spec ''spec'' = (labelled_plugin_spec, None)"
    by (simp add: decodes_to_def)
  have l: "LoadSpec test_loader (decodes_to labelled_plugin_spec) ''spec'' =
     (Some \<lparr>SLOs = loaded (LoadSpec test_loader (decodes_to labelled_plugin_spec) ''spec'')\<rparr>, None)"
    by (simp add: loader_defs fixture_defs)
  have n: "0 < length (v1_SLOs labelled_plugin_spec)"
    by (simp add: fixture_defs)
  have p: "v1_Plugin (v1_SLI (v1_SLOs labelled_plugin_spec ! 0)) =
     Some \<lparr>v1_ID = ''test_plugin'', v1_Options = [''k1'' \<mapsto> ''v1'', ''k2'' \<mapsto> ''true'']\<rparr>"
    by (simp add: fixture_defs)
  have rest: "v1_Objective (v1_SLOs labelled_plugin_spec ! 0) = Finite False (99 * 2 ^ 0) 0 \<and>
   Labels (loaded (LoadSpec test_loader (decodes_to labelled_plugin_spec) ''spec'') ! 0) ''gk1'' =
     Some ''slo-level'' \<and>
   Raw (SLI (loaded (LoadSpec test_loader (decodes_to labelled_plugin_spec) ''spec'') ! 0)) =
     Raw (SLI (SLOs plugin_model ! 0))"
    by (simp add: loader_defs fixture_defs sprintf_defs)
  have d': "decodes_to nan_plugin_spec ''spec'' = (nan_plugin_spec, None)"
    by (simp add: decodes_to_def)
  have l': "LoadSpec test_loader (decodes_to nan_plugin_spec) ''spec'' =
     (Some \<lparr>SLOs = loaded (LoadSpec test_loader (decodes_to nan_plugin_spec) ''spec'')\<rparr>, None)"
    by (simp add: loader_defs fixture_defs)
  have n': "0 < length (v1_SLOs nan_plugin_spec)"
    by (simp add: fixture_defs)
  have p': "v1_Plugin (v1_SLI (v1_SLOs nan_plugin_spec ! 0)) =
     Some \<lparr>v1_ID = ''test_plugin'', v1_Options = [''k1'' \<mapsto> ''v1'', ''k2'' \<mapsto> ''true'']\<rparr>"
    by (simp add: fixture_defs)
  have o': "v1_Objective (v1_SLOs nan_plugin_spec ! 0) = NaN"
    by (simp add: fixture_defs)
  from plugin_invocation [OF d' l' n' p'] o'
  have nan: "sprintf_f (v1_Objective (v1_SLOs nan_plugin_spec ! 0)) = ''NaN''"
    by blast
  from plugin_invocation [OF d l n p] d l n p rest d' l' n' p' o' nan
  show ?thesis by blast
qed

end
